theory Spec2Isabelle
  imports Main "HOL-Library.Word"
begin

section \<open>Data model of the lowering pass (frontend/cs\_to\_r1cs\_sparse.go)\<close>

subsection \<open>Terms\<close>

text \<open>
  Modelled from the spec: the package \<open>compiled\<close> (Term, Visibility, Pack, Unpack, the
  setters, the solver tags and the well-known coefficient indices) is not among the
  sources. The spec (3, 4.1, 9) describes a Term as the triple (coeffID, varID,
  visibility), allows an explicit three-field representation, and makes the all-zero
  Term the sentinel "absent". The width of the packed fields is given nowhere, so
  non-negative identifiers always fit here; a negative identifier never fits (it is
  a huge unsigned value in the packed word) and is the setter's failure of spec 4.1.
\<close>

datatype Visibility = Unset | Internal | Secret | Public

datatype Term = Pack (VariableID: nat) (CoeffID: nat) (VariableVisibility: Visibility)

definition zeroTerm :: Term where
  "zeroTerm = Pack 0 0 Unset"

definition SetVariableID :: "nat \<Rightarrow> Term \<Rightarrow> Term" where
  "SetVariableID v t = Pack v (CoeffID t) (VariableVisibility t)"

definition SetCoeffID :: "nat \<Rightarrow> Term \<Rightarrow> Term" where
  "SetCoeffID c t = Pack (VariableID t) c (VariableVisibility t)"

text \<open>
  Modelled from the spec: the reserved indices of the coefficient pool (spec 3:
  "Indices 0,1,2,3 are reserved for 0, 1, -1, 2 respectively") and the solver tags,
  whose default (the zero value of a gate built without a tag) is \<open>SingleOutput\<close>
  (spec 9).
\<close>

definition CoeffIdZero :: nat where "CoeffIdZero = 0"
definition CoeffIdOne :: nat where "CoeffIdOne = 1"
definition CoeffIdMinusOne :: nat where "CoeffIdMinusOne = 2"
definition CoeffIdTwo :: nat where "CoeffIdTwo = 3"

datatype SolvingMethod = SingleOutput | BinaryDec

subsection \<open>Constraints, gates and the state of the pass\<close>

record R1C =
  L :: "Term list"
  R :: "Term list"
  O :: "Term list"
  Solver :: SolvingMethod

record SparseR1C =
  L :: Term
  R :: Term
  O :: Term
  M0 :: Term
  M1 :: Term
  K :: nat
  Solver :: SolvingMethod

text \<open>The struct literal \<open>compiled.SparseR1C{}\<close>: every field at its zero value.\<close>

definition emptyGate :: SparseR1C where
  "emptyGate = \<lparr>SparseR1C.L = zeroTerm, SparseR1C.R = zeroTerm, SparseR1C.O = zeroTerm,
     M0 = zeroTerm, M1 = zeroTerm, K = 0, SparseR1C.Solver = SingleOutput\<rparr>"

record LogEntry =
  Format :: string
  ToResolve :: "int list"

record logEntry =
  format :: string
  toResolve :: "Term list"

text \<open>\<open>compiled.SparseR1CS\<close>, the output of the pass.\<close>

record SparseR1CS =
  NbPublicVariables :: int
  NbSecretVariables :: nat
  NbInternalVariables :: nat
  Constraints :: "SparseR1C list"
  Assertions :: "SparseR1C list"
  Logs :: "LogEntry list"

text \<open>
  The input \<open>ConstraintSystem\<close>: of the three variable tables only the lengths are
  read by the pass.
\<close>

record ConstraintSystem =
  public_variables :: nat
  secret_variables :: nat
  internal_variables :: nat
  constraints :: "R1C list"
  assertions :: "R1C list"
  logs :: "logEntry list"
  cs_coeffs :: "int list"

text \<open>
  The struct \<open>sparseR1CS\<close>: the coefficient pool of the embedded constraint system
  (the only field of it that the lowering functions touch), the output under
  construction, the map from source internal variables to output internal variables
  and the solved-variable flags.
\<close>

record sparseR1CS =
  coeffs :: "int list"
  ccs :: SparseR1CS
  mCStoCCS :: "nat list"
  solvedVariables :: "bool list"

subsection \<open>Failures\<close>

text \<open>
  The only error value of the pass is \<open>ErrInputNotSet\<close>. Everything else that stops it
  is a Go run-time panic: an index out of range, a slice made with a negative length,
  the explicit panic of the log renumbering, and the setter's refusal of an
  identifier that does not fit.
\<close>

datatype error =
    ErrInputNotSet
  | PanicIndexOutOfRange
  | PanicMakeSliceLen
  | PanicUnsetInLogs
  | PanicVariableIDTooLarge

type_synonym 'a scsM = "sparseR1CS \<Rightarrow> error + ('a \<times> sparseR1CS)"

definition returnM :: "'a \<Rightarrow> 'a scsM" where
  "returnM x s = Inr (x, s)"

definition panicM :: "error \<Rightarrow> 'a scsM" where
  "panicM e s = Inl e"

definition bindM :: "'a scsM \<Rightarrow> ('a \<Rightarrow> 'b scsM) \<Rightarrow> 'b scsM" where
  "bindM m f s = (case m s of Inl e \<Rightarrow> Inl e | Inr (x, s') \<Rightarrow> f x s')"

section \<open>The coefficient pool\<close>

fun indexOf :: "int \<Rightarrow> int list \<Rightarrow> nat option" where
  "indexOf b [] = None"
| "indexOf b (c # cs) =
     (if c = b then Some 0 else (case indexOf b cs of None \<Rightarrow> None | Some i \<Rightarrow> Some (Suc i)))"

text \<open>
  Modelled from the spec: the method \<open>coeffID\<close> of the constraint system is not among
  the sources. Spec 3: "coeffID(x) returns an existing index if x already appears (by
  value), else appends x".
\<close>

definition coeffID :: "int \<Rightarrow> nat scsM" where
  "coeffID b s =
     (case indexOf b (coeffs s) of
        Some i \<Rightarrow> Inr (i, s)
      | None \<Rightarrow> Inr (length (coeffs s), s\<lparr>coeffs := coeffs s @ [b]\<rparr>))"

text \<open>Reading \<open>scs.coeffs[i]\<close>: a run-time panic out of range.\<close>

definition coeffAt :: "nat \<Rightarrow> int scsM" where
  "coeffAt i s = (if i < length (coeffs s) then Inr (coeffs s ! i, s) else Inl PanicIndexOutOfRange)"

section \<open>Helpers of the lowering engine\<close>

subsection \<open>findUnsolvedVariable\<close>

text \<open>
  One of the three loops of \<open>findUnsolvedVariable\<close>, over one linear expression. The
  variable \<open>id\<close> of the source is assigned before the solved flag is looked at, so it
  is threaded through; the Boolean says whether the loop left through \<open>break\<close>.
\<close>

fun scanUnsolved :: "Term list \<Rightarrow> bool list \<Rightarrow> int \<Rightarrow> error + (bool \<times> int)" where
  "scanUnsolved [] solved i = Inr (False, i)"
| "scanUnsolved (t # ts) solved i =
     (if VariableVisibility t \<noteq> Internal then scanUnsolved ts solved i
      else if VariableID t < length solved
        then (if \<not> solved ! VariableID t then Inr (True, int (VariableID t))
              else scanUnsolved ts solved (int (VariableID t)))
        else Inl PanicIndexOutOfRange)"

definition findUnsolvedVariable :: "R1C \<Rightarrow> bool list \<Rightarrow> error + (int \<times> int)" where
  "findUnsolvedVariable r1c solved =
     (case scanUnsolved (R1C.L r1c) solved (- 1) of
        Inl e \<Rightarrow> Inl e
      | Inr (True, i) \<Rightarrow> Inr (0, i)
      | Inr (False, i) \<Rightarrow>
          (case scanUnsolved (R1C.R r1c) solved i of
             Inl e \<Rightarrow> Inl e
           | Inr (True, j) \<Rightarrow> Inr (1, j)
           | Inr (False, j) \<Rightarrow>
               (case scanUnsolved (R1C.O r1c) solved j of
                  Inl e \<Rightarrow> Inl e
                | Inr (True, k) \<Rightarrow> Inr (2, k)
                | Inr (False, k) \<Rightarrow> Inr (- 1, k))))"

subsection \<open>popInternalVariable and popConstantTerm\<close>

text \<open>
  \<open>popInternalVariable\<close> fills a slice of length \<open>len(l) - 1\<close> with the terms it keeps:
  making it panics when \<open>l\<close> is empty, and writing to it panics when no term is
  dropped. Slots that are never written keep the zero Term.
\<close>

fun popInternalVariable_loop ::
  "Term list \<Rightarrow> int \<Rightarrow> Term list \<Rightarrow> nat \<Rightarrow> Term \<Rightarrow> error + (Term list \<times> Term)" where
  "popInternalVariable_loop [] i l' c t = Inr (l', t)"
| "popInternalVariable_loop (v # vs) i l' c t =
     (if VariableVisibility v = Internal \<and> int (VariableID v) = i
        then popInternalVariable_loop vs i l' c v
      else if c < length l' then popInternalVariable_loop vs i (l'[c := v]) (Suc c) t
      else Inl PanicIndexOutOfRange)"

definition popInternalVariable :: "Term list \<Rightarrow> int \<Rightarrow> error + (Term list \<times> Term)" where
  "popInternalVariable l i =
     (if l = [] then Inl PanicMakeSliceLen
      else popInternalVariable_loop l i (replicate (length l - 1) zeroTerm) 0 zeroTerm)"

fun popConstantTerm_list :: "int list \<Rightarrow> Term list \<Rightarrow> error + (Term list \<times> int)" where
  "popConstantTerm_list cs [] = Inr ([], 0)"
| "popConstantTerm_list cs (t # l) =
     (if VariableID t = 0 \<and> VariableVisibility t = Public
        then (if CoeffID t < length cs then Inr (l, cs ! CoeffID t) else Inl PanicIndexOutOfRange)
      else (case popConstantTerm_list cs l of
              Inl e \<Rightarrow> Inl e
            | Inr (l', c) \<Rightarrow> Inr (t # l', c)))"

definition popConstantTerm :: "Term list \<Rightarrow> (Term list \<times> int) scsM" where
  "popConstantTerm l s =
     (case popConstantTerm_list (coeffs s) l of Inl e \<Rightarrow> Inl e | Inr x \<Rightarrow> Inr (x, s))"

subsection \<open>Terms of the output and recorded gates\<close>

definition getCorrespondingTerm :: "Term \<Rightarrow> Term scsM" where
  "getCorrespondingTerm t s =
     (if VariableVisibility t = Internal
        then (if VariableID t < length (mCStoCCS s)
                then Inr (SetVariableID (mCStoCCS s ! VariableID t) t, s)
              else Inl PanicIndexOutOfRange)
      else Inr (t, s))"

text \<open>
  \<open>newTerm(coeff, idCS...)\<close>: the optional \<open>idCS\<close> is a Go \<open>int\<close>, so the write to the
  map panics when it is negative or beyond the map.
\<close>

definition setCStoCCS :: "int option \<Rightarrow> nat \<Rightarrow> unit scsM" where
  "setCStoCCS idCS vID s =
     (case idCS of
        None \<Rightarrow> Inr ((), s)
      | Some i \<Rightarrow>
          (if 0 \<le> i \<and> nat i < length (mCStoCCS s)
             then Inr ((), s\<lparr>mCStoCCS := (mCStoCCS s)[nat i := vID]\<rparr>)
           else Inl PanicIndexOutOfRange))"

definition allocInternal :: "nat scsM" where
  "allocInternal s =
     Inr (NbInternalVariables (ccs s),
          s\<lparr>ccs := (ccs s)\<lparr>NbInternalVariables := NbInternalVariables (ccs s) + 1\<rparr>\<rparr>)"

definition newTerm :: "int \<Rightarrow> int option \<Rightarrow> Term scsM" where
  "newTerm coeff idCS =
     bindM (coeffID coeff) (\<lambda>cID.
     bindM allocInternal (\<lambda>vID.
     bindM (setCStoCCS idCS vID) (\<lambda>_.
     returnM (Pack vID cID Internal))))"

definition fixVariableIDs :: "SparseR1C \<Rightarrow> SparseR1C" where
  "fixVariableIDs c =
     (let c1 = (if SparseR1C.L c = zeroTerm
                then c\<lparr>SparseR1C.L := SetVariableID (VariableID (M0 c)) (SparseR1C.L c)\<rparr> else c);
          c2 = (if SparseR1C.R c1 = zeroTerm
                then c1\<lparr>SparseR1C.R := SetVariableID (VariableID (M1 c1)) (SparseR1C.R c1)\<rparr> else c1);
          c3 = (if M0 c2 = zeroTerm
                then c2\<lparr>M0 := SetVariableID (VariableID (SparseR1C.L c2)) (M0 c2)\<rparr> else c2);
          c4 = (if M1 c3 = zeroTerm
                then c3\<lparr>M1 := SetVariableID (VariableID (SparseR1C.R c3)) (M1 c3)\<rparr> else c3)
      in c4)"

definition addConstraint :: "SparseR1C \<Rightarrow> unit scsM" where
  "addConstraint c s =
     Inr ((), s\<lparr>ccs := (ccs s)\<lparr>Constraints := Constraints (ccs s) @ [fixVariableIDs c]\<rparr>\<rparr>)"

definition recordAssertion :: "SparseR1C \<Rightarrow> unit scsM" where
  "recordAssertion c s =
     Inr ((), s\<lparr>ccs := (ccs s)\<lparr>Assertions := Assertions (ccs s) @ [c]\<rparr>\<rparr>)"

subsection \<open>negate and multiply\<close>

definition negate :: "Term \<Rightarrow> Term scsM" where
  "negate t =
     (if t = zeroTerm then returnM t
      else bindM (coeffAt (CoeffID t)) (\<lambda>c.
           bindM (coeffID (- c)) (\<lambda>cID.
           returnM (SetCoeffID cID t))))"

definition multiply_general :: "Term \<Rightarrow> int \<Rightarrow> Term scsM" where
  "multiply_general t c =
     bindM (coeffAt (CoeffID t)) (\<lambda>a.
     bindM (coeffID (a * c)) (\<lambda>cID.
     returnM (SetCoeffID cID t)))"

definition multiply :: "Term \<Rightarrow> int \<Rightarrow> Term scsM" where
  "multiply t c =
     (if c = 0 then returnM (SetCoeffID CoeffIdZero t)
      else if c = 1 then returnM t
      else if c = - 1 then
        (if CoeffID t = CoeffIdZero then returnM t
         else if CoeffID t = CoeffIdOne then returnM (SetCoeffID CoeffIdMinusOne t)
         else if CoeffID t = CoeffIdMinusOne then returnM (SetCoeffID CoeffIdOne t)
         else multiply_general t c)
      else multiply_general t c)"

subsection \<open>split\<close>

fun split :: "Term \<Rightarrow> Term list \<Rightarrow> Term scsM" where
  "split acc [] = returnM acc"
| "split acc (x # le) =
     (if acc = zeroTerm then bindM (getCorrespondingTerm x) (\<lambda>t. split t le)
      else
        bindM (getCorrespondingTerm x) (\<lambda>r.
        bindM (newTerm 1 None) (\<lambda>o1.
        bindM (addConstraint (emptyGate\<lparr>SparseR1C.L := acc, SparseR1C.R := r, SparseR1C.O := o1\<rparr>)) (\<lambda>_.
        bindM (negate o1) (\<lambda>o2.
        split o2 le)))))"

section \<open>Single-output lowering\<close>

definition liftE :: "error + 'a \<Rightarrow> 'a scsM" where
  "liftE r s = (case r of Inl e \<Rightarrow> Inl e | Inr x \<Rightarrow> Inr (x, s))"

text \<open>
  The sixteen closures \<open>f1\<close> ... \<open>f16\<close> of \<open>r1cToPlonkConstraintSingleOutput\<close>, with
  the variables they capture as arguments. The calls stand in the order in which Go
  evaluates them (the fields of a struct literal from first to last), since each
  call may intern a coefficient or allocate a wire.
\<close>

definition f1 :: "int \<Rightarrow> int \<Rightarrow> int \<Rightarrow> int \<Rightarrow> int \<Rightarrow> unit scsM" where
  "f1 cL cR cO cS idCS =
     bindM (coeffID (cL * cR - cO)) (\<lambda>k.
     bindM (newTerm (- cS) (Some idCS)) (\<lambda>t.
     addConstraint (emptyGate\<lparr>K := k, SparseR1C.O := t\<rparr>)))"

definition f2 :: "int \<Rightarrow> int \<Rightarrow> int \<Rightarrow> int \<Rightarrow> int \<Rightarrow> Term list \<Rightarrow> unit scsM" where
  "f2 cL cR cO cS idCS r =
     bindM (split zeroTerm r) (\<lambda>rt.
     bindM (multiply rt cL) (\<lambda>cRT.
     bindM (coeffID (cL * cR - cO)) (\<lambda>k.
     bindM (newTerm (- cS) (Some idCS)) (\<lambda>t.
     addConstraint (emptyGate\<lparr>SparseR1C.R := cRT, K := k, SparseR1C.O := t\<rparr>)))))"

definition f3 :: "int \<Rightarrow> int \<Rightarrow> int \<Rightarrow> int \<Rightarrow> int \<Rightarrow> Term list \<Rightarrow> unit scsM" where
  "f3 cL cR cO cS idCS l =
     bindM (split zeroTerm l) (\<lambda>lt.
     bindM (multiply lt cR) (\<lambda>cRLT.
     bindM (newTerm (- cS) (Some idCS)) (\<lambda>t.
     bindM (coeffID (cL * cR - cO)) (\<lambda>k.
     addConstraint (emptyGate\<lparr>SparseR1C.L := cRLT, SparseR1C.O := t, K := k\<rparr>)))))"

definition f4 :: "int \<Rightarrow> int \<Rightarrow> int \<Rightarrow> int \<Rightarrow> int \<Rightarrow> Term list \<Rightarrow> Term list \<Rightarrow> unit scsM" where
  "f4 cL cR cO cS idCS l r =
     bindM (split zeroTerm l) (\<lambda>lt.
     bindM (split zeroTerm r) (\<lambda>rt.
     bindM (multiply lt cR) (\<lambda>cRLT.
     bindM (multiply rt cL) (\<lambda>cRT.
     bindM (coeffID (cL * cR - cO)) (\<lambda>k.
     bindM (newTerm (- cS) (Some idCS)) (\<lambda>t.
     addConstraint (emptyGate\<lparr>SparseR1C.L := cRLT, SparseR1C.R := cRT, M0 := lt, M1 := rt,
       K := k, SparseR1C.O := t\<rparr>)))))))"

definition f5 :: "int \<Rightarrow> int \<Rightarrow> int \<Rightarrow> int \<Rightarrow> int \<Rightarrow> Term list \<Rightarrow> unit scsM" where
  "f5 cL cR cO cS idCS ol =
     bindM (split zeroTerm ol) (\<lambda>ot.
     bindM (coeffID (- (cL * cR - cO))) (\<lambda>k.
     bindM (newTerm (- cS) (Some idCS)) (\<lambda>t.
     addConstraint (emptyGate\<lparr>SparseR1C.L := ot, K := k, SparseR1C.O := t\<rparr>))))"

definition f6 :: "int \<Rightarrow> int \<Rightarrow> int \<Rightarrow> int \<Rightarrow> int \<Rightarrow> Term list \<Rightarrow> Term list \<Rightarrow> unit scsM" where
  "f6 cL cR cO cS idCS r ol =
     bindM (split zeroTerm r) (\<lambda>rt.
     bindM (split zeroTerm ol) (\<lambda>ot.
     bindM (multiply rt cL) (\<lambda>cRT.
     bindM (negate ot) (\<lambda>nOt.
     bindM (coeffID (- (cL * cR - cO))) (\<lambda>k.
     bindM (newTerm (- cS) (Some idCS)) (\<lambda>t.
     addConstraint (emptyGate\<lparr>SparseR1C.L := nOt, SparseR1C.R := cRT, K := k,
       SparseR1C.O := t\<rparr>)))))))"

definition f7 :: "int \<Rightarrow> int \<Rightarrow> int \<Rightarrow> int \<Rightarrow> int \<Rightarrow> Term list \<Rightarrow> Term list \<Rightarrow> unit scsM" where
  "f7 cL cR cO cS idCS l ol =
     bindM (split zeroTerm l) (\<lambda>lt.
     bindM (split zeroTerm ol) (\<lambda>ot.
     bindM (multiply lt cR) (\<lambda>cRLT.
     bindM (negate ot) (\<lambda>nOt.
     bindM (coeffID (- (cL * cR - cO))) (\<lambda>k.
     bindM (newTerm (- cS) (Some idCS)) (\<lambda>t.
     addConstraint (emptyGate\<lparr>SparseR1C.R := nOt, SparseR1C.L := cRLT, K := k,
       SparseR1C.O := t\<rparr>)))))))"

definition f8 ::
  "int \<Rightarrow> int \<Rightarrow> int \<Rightarrow> int \<Rightarrow> int \<Rightarrow> Term list \<Rightarrow> Term list \<Rightarrow> Term list \<Rightarrow> unit scsM" where
  "f8 cL cR cO cS idCS l r ol =
     bindM (split zeroTerm l) (\<lambda>lt.
     bindM (split zeroTerm r) (\<lambda>rt.
     bindM (split zeroTerm ol) (\<lambda>ot.
     bindM (multiply lt cR) (\<lambda>cRLT.
     bindM (multiply rt cL) (\<lambda>cRT.
     bindM (newTerm 1 None) (\<lambda>u.
     bindM (coeffID (- (cL * cR - cO))) (\<lambda>k.
     bindM (addConstraint (emptyGate\<lparr>SparseR1C.L := cRLT, SparseR1C.R := cRT, M0 := lt,
              M1 := rt, K := k, SparseR1C.O := u\<rparr>)) (\<lambda>_.
     bindM (newTerm cS (Some idCS)) (\<lambda>t.
     addConstraint (emptyGate\<lparr>SparseR1C.L := u, SparseR1C.R := ot, SparseR1C.O := t\<rparr>))))))))))"

definition f9 :: "int \<Rightarrow> int \<Rightarrow> int \<Rightarrow> int \<Rightarrow> int \<Rightarrow> unit scsM" where
  "f9 cL cR cO cS idCS =
     bindM (newTerm (cS * cR) (Some idCS)) (\<lambda>t.
     bindM (coeffID (cL * cR - cO)) (\<lambda>k.
     addConstraint (emptyGate\<lparr>SparseR1C.L := t, K := k\<rparr>)))"

definition f10 :: "int \<Rightarrow> int \<Rightarrow> int \<Rightarrow> int \<Rightarrow> int \<Rightarrow> Term list \<Rightarrow> unit scsM" where
  "f10 cL cR cO cS idCS r =
     bindM (newTerm cS (Some idCS)) (\<lambda>res.
     bindM (split zeroTerm r) (\<lambda>rt.
     bindM (multiply rt cL) (\<lambda>cRT.
     bindM (multiply res cR) (\<lambda>cRes.
     bindM (coeffID (cL * cR - cO)) (\<lambda>k.
     addConstraint (emptyGate\<lparr>SparseR1C.L := cRes, SparseR1C.R := cRT, M0 := res, M1 := rt,
       K := k\<rparr>))))))"

definition f11 :: "int \<Rightarrow> int \<Rightarrow> int \<Rightarrow> int \<Rightarrow> int \<Rightarrow> Term list \<Rightarrow> unit scsM" where
  "f11 cL cR cO cS idCS l =
     bindM (split zeroTerm l) (\<lambda>lt0.
     bindM (multiply lt0 cR) (\<lambda>lt.
     bindM (newTerm (cS * cR) (Some idCS)) (\<lambda>t.
     bindM (coeffID (cL * cR - cO)) (\<lambda>k.
     addConstraint (emptyGate\<lparr>SparseR1C.L := t, SparseR1C.R := lt, K := k\<rparr>)))))"

definition f12 :: "int \<Rightarrow> int \<Rightarrow> int \<Rightarrow> int \<Rightarrow> int \<Rightarrow> Term list \<Rightarrow> Term list \<Rightarrow> unit scsM" where
  "f12 cL cR cO cS idCS l r =
     bindM (newTerm 1 None) (\<lambda>u.
     bindM (split zeroTerm l) (\<lambda>lt.
     bindM (split zeroTerm r) (\<lambda>rt.
     bindM (multiply lt cR) (\<lambda>cRLT.
     bindM (multiply rt cL) (\<lambda>cRT.
     bindM (coeffID (cL * cR - cO)) (\<lambda>k.
     bindM (addConstraint (emptyGate\<lparr>SparseR1C.L := cRLT, SparseR1C.R := cRT, M0 := lt,
              M1 := rt, SparseR1C.O := u, K := k\<rparr>)) (\<lambda>_.
     bindM (newTerm cS (Some idCS)) (\<lambda>res.
     bindM (multiply res cR) (\<lambda>cRes.
     bindM (negate u) (\<lambda>nu.
     addConstraint (emptyGate\<lparr>SparseR1C.R := cRes, M0 := res, M1 := rt,
       SparseR1C.O := nu\<rparr>)))))))))))"

definition f13 :: "int \<Rightarrow> int \<Rightarrow> int \<Rightarrow> int \<Rightarrow> int \<Rightarrow> Term list \<Rightarrow> unit scsM" where
  "f13 cL cR cO cS idCS ol =
     bindM (split zeroTerm ol) (\<lambda>ot.
     bindM (newTerm (cS * cR) (Some idCS)) (\<lambda>t.
     bindM (negate ot) (\<lambda>nOt.
     bindM (coeffID (cL * cR - cO)) (\<lambda>k.
     addConstraint (emptyGate\<lparr>SparseR1C.L := t, SparseR1C.O := nOt, K := k\<rparr>)))))"

definition f14 :: "int \<Rightarrow> int \<Rightarrow> int \<Rightarrow> int \<Rightarrow> int \<Rightarrow> Term list \<Rightarrow> Term list \<Rightarrow> unit scsM" where
  "f14 cL cR cO cS idCS r ol =
     bindM (split zeroTerm ol) (\<lambda>ot.
     bindM (newTerm cS (Some idCS)) (\<lambda>res.
     bindM (split zeroTerm r) (\<lambda>rt.
     bindM (multiply res cR) (\<lambda>cRes.
     bindM (multiply rt cL) (\<lambda>cRT.
     bindM (negate ot) (\<lambda>nOt.
     bindM (coeffID (cL * cR - cO)) (\<lambda>k.
     addConstraint (emptyGate\<lparr>SparseR1C.L := cRes, SparseR1C.R := cRT, M0 := res, M1 := rt,
       SparseR1C.O := nOt, K := k\<rparr>))))))))"

definition f15 :: "int \<Rightarrow> int \<Rightarrow> int \<Rightarrow> int \<Rightarrow> int \<Rightarrow> Term list \<Rightarrow> Term list \<Rightarrow> unit scsM" where
  "f15 cL cR cO cS idCS l ol =
     bindM (split zeroTerm ol) (\<lambda>ot.
     bindM (split zeroTerm l) (\<lambda>lt.
     bindM (newTerm (cS * cR) (Some idCS)) (\<lambda>t.
     bindM (multiply lt cR) (\<lambda>cRLT.
     bindM (negate ot) (\<lambda>nOt.
     bindM (coeffID (cL * cR - cO)) (\<lambda>k.
     addConstraint (emptyGate\<lparr>SparseR1C.L := t, SparseR1C.R := cRLT, SparseR1C.O := nOt,
       K := k\<rparr>)))))))"

definition f16 ::
  "int \<Rightarrow> int \<Rightarrow> int \<Rightarrow> int \<Rightarrow> int \<Rightarrow> Term list \<Rightarrow> Term list \<Rightarrow> Term list \<Rightarrow> unit scsM" where
  "f16 cL cR cO cS idCS l r ol =
     bindM (newTerm 1 None) (\<lambda>u.
     bindM (split zeroTerm l) (\<lambda>lt.
     bindM (split zeroTerm r) (\<lambda>rt.
     bindM (multiply lt cR) (\<lambda>cRLT.
     bindM (multiply rt cL) (\<lambda>cRT.
     bindM (coeffID (cL * cR - cO)) (\<lambda>k.
     bindM (addConstraint (emptyGate\<lparr>SparseR1C.L := cRLT, SparseR1C.R := cRT, M0 := lt,
              M1 := rt, SparseR1C.O := u, K := k\<rparr>)) (\<lambda>_.
     bindM (newTerm 1 None) (\<lambda>v.
     bindM (split zeroTerm ol) (\<lambda>ot.
     bindM (addConstraint (emptyGate\<lparr>SparseR1C.L := u, SparseR1C.R := ot,
              SparseR1C.O := v\<rparr>)) (\<lambda>_.
     bindM (newTerm cS (Some idCS)) (\<lambda>res.
     bindM (multiply res cR) (\<lambda>cRes.
     addConstraint (emptyGate\<lparr>SparseR1C.R := cRes, M0 := res, M1 := rt,
       SparseR1C.O := v\<rparr>)))))))))))))"

text \<open>The switch on the four-bit case index \<open>s\<close>.\<close>

definition dispatch16 ::
  "int \<Rightarrow> int \<Rightarrow> int \<Rightarrow> int \<Rightarrow> int \<Rightarrow> int \<Rightarrow> Term list \<Rightarrow> Term list \<Rightarrow> Term list \<Rightarrow> unit scsM" where
  "dispatch16 lro cL cR cO cS idCS l r ol =
     (if lro = 0 then
        (if ol = [] then
           (if l = [] then (if r = [] then f9 cL cR cO cS idCS else f10 cL cR cO cS idCS r)
            else (if r = [] then f11 cL cR cO cS idCS l else f12 cL cR cO cS idCS l r))
         else
           (if l = [] then (if r = [] then f13 cL cR cO cS idCS ol else f14 cL cR cO cS idCS r ol)
            else (if r = [] then f15 cL cR cO cS idCS l ol else f16 cL cR cO cS idCS l r ol)))
      else
        (if ol = [] then
           (if l = [] then (if r = [] then f1 cL cR cO cS idCS else f2 cL cR cO cS idCS r)
            else (if r = [] then f3 cL cR cO cS idCS l else f4 cL cR cO cS idCS l r))
         else
           (if l = [] then (if r = [] then f5 cL cR cO cS idCS ol else f6 cL cR cO cS idCS r ol)
            else (if r = [] then f7 cL cR cO cS idCS l ol else f8 cL cR cO cS idCS l r ol))))"

definition markSolved :: "int \<Rightarrow> unit scsM" where
  "markSolved idCS s =
     (if 0 \<le> idCS \<and> nat idCS < length (solvedVariables s)
        then Inr ((), s\<lparr>solvedVariables := (solvedVariables s)[nat idCS := True]\<rparr>)
      else Inl PanicIndexOutOfRange)"

definition popUnsolved ::
  "int \<Rightarrow> int \<Rightarrow> Term list \<Rightarrow> Term list \<Rightarrow> error + (Term list \<times> Term list \<times> Term)" where
  "popUnsolved lro idCS l ol =
     (if lro = 0
        then (case popInternalVariable l idCS of
                Inl e \<Rightarrow> Inl e | Inr (l', t) \<Rightarrow> Inr (l', ol, t))
      else (case popInternalVariable ol idCS of
              Inl e \<Rightarrow> Inl e | Inr (ol', t) \<Rightarrow> Inr (l, ol', t)))"

definition getSolvedVariables :: "(bool list) scsM" where
  "getSolvedVariables s = Inr (solvedVariables s, s)"

definition r1cToPlonkConstraintSingleOutput :: "R1C \<Rightarrow> unit scsM" where
  "r1cToPlonkConstraintSingleOutput r1c =
     bindM getSolvedVariables (\<lambda>solved.
     bindM (liftE (findUnsolvedVariable r1c solved)) (\<lambda>(lro0, idCS).
     (let l0 = (if lro0 = 1 then R1C.R r1c else R1C.L r1c);
          r0 = (if lro0 = 1 then R1C.L r1c else R1C.R r1c);
          lro = (if lro0 = 1 then 0 else lro0)
      in bindM (popConstantTerm l0) (\<lambda>(l1, cL).
         bindM (popConstantTerm r0) (\<lambda>(r, cR).
         bindM (popConstantTerm (R1C.O r1c)) (\<lambda>(o1, cO).
         bindM (liftE (popUnsolved lro idCS l1 o1)) (\<lambda>(l, ol, toSolve).
         bindM (coeffAt (CoeffID toSolve)) (\<lambda>cS.
         bindM (dispatch16 lro cL cR cO cS idCS l r ol) (\<lambda>_.
         markSolved idCS)))))))))"

section \<open>Binary-decomposition lowering\<close>

text \<open>
  The inner loop over \<open>binDec\<close>: the first term whose coefficient equals \<open>acc\<close>, and
  the slice without it. Every coefficient looked at is read from the pool.
\<close>

fun findBit :: "int list \<Rightarrow> int \<Rightarrow> Term list \<Rightarrow> error + (Term \<times> Term list) option" where
  "findBit cs acc [] = Inr None"
| "findBit cs acc (t # ts) =
     (if CoeffID t < length cs then
        (if cs ! CoeffID t = acc then Inr (Some (t, ts))
         else (case findBit cs acc ts of
                 Inl e \<Rightarrow> Inl e
               | Inr None \<Rightarrow> Inr None
               | Inr (Some (u, rest)) \<Rightarrow> Inr (Some (u, t # rest))))
      else Inl PanicIndexOutOfRange)"

definition consumeBit :: "int \<Rightarrow> Term \<Rightarrow> Term list \<Rightarrow> (Term list) scsM" where
  "consumeBit acc ri binDec s =
     (case findBit (coeffs s) acc binDec of
        Inl e \<Rightarrow> Inl e
      | Inr None \<Rightarrow> Inr (binDec, s)
      | Inr (Some (t, rest)) \<Rightarrow>
          (if VariableID t < length (mCStoCCS s) \<and> VariableID t < length (solvedVariables s)
             then Inr (rest, s\<lparr>mCStoCCS := (mCStoCCS s)[VariableID t := VariableID ri],
                                solvedVariables := (solvedVariables s)[VariableID t := True]\<rparr>)
           else Inl PanicIndexOutOfRange))"

text \<open>
  The loop \<open>for i := 0; i < nbBits; i++\<close>, by the number of iterations left; \<open>acc\<close> is
  the power of two of the current bit, \<open>q\<close> is \<open>accQi[i]\<close>. It returns what is left of
  \<open>binDec\<close>, which the source never looks at again.
\<close>

fun binaryLoop :: "nat \<Rightarrow> int \<Rightarrow> Term \<Rightarrow> Term list \<Rightarrow> (Term list) scsM" where
  "binaryLoop 0 acc q binDec = returnM binDec"
| "binaryLoop (Suc n) acc q binDec =
     bindM (newTerm 1 None) (\<lambda>ri.
     bindM (newTerm 1 None) (\<lambda>qi.
     bindM (consumeBit acc ri binDec) (\<lambda>binDec'.
     bindM (multiply qi 2) (\<lambda>tq.
     bindM (negate q) (\<lambda>nq.
     bindM (addConstraint (emptyGate\<lparr>SparseR1C.L := tq, SparseR1C.R := ri, SparseR1C.O := nq,
              SparseR1C.Solver := BinaryDec\<rparr>)) (\<lambda>_.
     binaryLoop n (acc * 2) qi binDec'))))))"

text \<open>The reduction of \<open>r1c.O\<close> to the single term \<open>ot\<close>.\<close>

definition reduceO :: "Term list \<Rightarrow> Term scsM" where
  "reduceO ol0 =
     bindM (popConstantTerm ol0) (\<lambda>(ol, cO).
     bindM (coeffID cO) (\<lambda>cOID.
     (if ol = [] then
        bindM (newTerm 1 None) (\<lambda>ot.
        bindM (negate ot) (\<lambda>nOt.
        bindM (addConstraint (emptyGate\<lparr>SparseR1C.L := nOt, K := cOID\<rparr>)) (\<lambda>_.
        returnM ot)))
      else
        bindM (split zeroTerm ol) (\<lambda>ot.
        (if cOID \<noteq> 0 then
           bindM (newTerm 1 None) (\<lambda>ot'.
           bindM (negate ot') (\<lambda>nOt.
           bindM (addConstraint (emptyGate\<lparr>SparseR1C.L := ot, SparseR1C.O := nOt,
                    K := cOID\<rparr>)) (\<lambda>_.
           returnM ot')))
         else returnM ot)))))"

definition r1cToPlonkConstraintBinary :: "R1C \<Rightarrow> unit scsM" where
  "r1cToPlonkConstraintBinary r1c =
     bindM (reduceO (R1C.O r1c)) (\<lambda>ot.
     bindM (binaryLoop (length (R1C.L r1c)) 1 ot (R1C.L r1c)) (\<lambda>_.
     returnM ()))"

definition r1cToSparseR1C :: "R1C \<Rightarrow> unit scsM" where
  "r1cToSparseR1C r1c =
     (if R1C.Solver r1c = SingleOutput then r1cToPlonkConstraintSingleOutput r1c
      else r1cToPlonkConstraintBinary r1c)"

section \<open>Assertion lowering\<close>

definition splitR1C :: "R1C \<Rightarrow> unit scsM" where
  "splitR1C r1c =
     bindM (popConstantTerm (R1C.L r1c)) (\<lambda>(l, cL).
     bindM (popConstantTerm (R1C.R r1c)) (\<lambda>(r, cR).
     bindM (popConstantTerm (R1C.O r1c)) (\<lambda>(ol, cO).
     (if ol = [] then
        (if l = [] then
           (if r = [] then
              bindM (coeffID (cL * cR - cO)) (\<lambda>k.
              recordAssertion (emptyGate\<lparr>K := k\<rparr>))
            else
              bindM (split zeroTerm r) (\<lambda>rt.
              bindM (multiply rt cL) (\<lambda>cosntlrt.
              bindM (coeffID (cL * cR - cO)) (\<lambda>k.
              recordAssertion (emptyGate\<lparr>SparseR1C.R := cosntlrt, K := k\<rparr>)))))
         else
           (if r = [] then
              bindM (split zeroTerm l) (\<lambda>lt.
              bindM (multiply lt cR) (\<lambda>cRLT.
              bindM (coeffID (cL * cR - cO)) (\<lambda>k.
              recordAssertion (emptyGate\<lparr>SparseR1C.L := cRLT, K := k\<rparr>))))
            else
              bindM (split zeroTerm l) (\<lambda>lt.
              bindM (split zeroTerm r) (\<lambda>rt.
              bindM (multiply lt cR) (\<lambda>cRLT.
              bindM (multiply rt cL) (\<lambda>cRT.
              bindM (coeffID (cL * cR - cO)) (\<lambda>k.
              recordAssertion (emptyGate\<lparr>SparseR1C.L := cRLT, SparseR1C.R := cRT, M0 := lt,
                M1 := rt, K := k\<rparr>))))))))
      else
        (if l = [] then
           (if r = [] then
              bindM (split zeroTerm ol) (\<lambda>ot.
              bindM (coeffID (cL * cR - cO)) (\<lambda>k.
              bindM (negate ot) (\<lambda>nOt.
              recordAssertion (emptyGate\<lparr>K := k, SparseR1C.O := nOt\<rparr>))))
            else
              bindM (split zeroTerm r) (\<lambda>rt.
              bindM (split zeroTerm ol) (\<lambda>ot.
              bindM (multiply rt cL) (\<lambda>cRT.
              bindM (coeffID (cL * cR - cO)) (\<lambda>k.
              bindM (negate ot) (\<lambda>nOt.
              recordAssertion (emptyGate\<lparr>SparseR1C.R := cRT, K := k, SparseR1C.O := nOt\<rparr>)))))))
         else
           (if r = [] then
              bindM (split zeroTerm l) (\<lambda>lt.
              bindM (split zeroTerm ol) (\<lambda>ot.
              bindM (multiply lt cR) (\<lambda>cRLT.
              bindM (coeffID (cL * cR - cO)) (\<lambda>k.
              bindM (negate ot) (\<lambda>nOt.
              recordAssertion (emptyGate\<lparr>SparseR1C.L := cRLT, K := k, SparseR1C.O := nOt\<rparr>))))))
            else
              bindM (split zeroTerm l) (\<lambda>lt.
              bindM (split zeroTerm r) (\<lambda>rt.
              bindM (split zeroTerm ol) (\<lambda>ot.
              bindM (multiply rt cL) (\<lambda>cRT.
              bindM (multiply lt cR) (\<lambda>cRLT.
              bindM (coeffID (cR * cL - cO)) (\<lambda>k.
              bindM (negate ot) (\<lambda>nOt.
              addConstraint (emptyGate\<lparr>SparseR1C.L := cRLT, SparseR1C.R := cRT, M0 := lt,
                M1 := rt, K := k, SparseR1C.O := nOt\<rparr>))))))))))))))"

section \<open>The pass \<open>toSparseR1CS\<close> and the final renumbering\<close>

definition bindE :: "error + 'a \<Rightarrow> ('a \<Rightarrow> error + 'b) \<Rightarrow> error + 'b" where
  "bindE m f = (case m of Inl e \<Rightarrow> Inl e | Inr x \<Rightarrow> f x)"

fun mapE :: "('a \<Rightarrow> error + 'b) \<Rightarrow> 'a list \<Rightarrow> error + 'b list" where
  "mapE f [] = Inr []"
| "mapE f (x # xs) = bindE (f x) (\<lambda>y. bindE (mapE f xs) (\<lambda>ys. Inr (y # ys)))"

fun forM :: "('a \<Rightarrow> unit scsM) \<Rightarrow> 'a list \<Rightarrow> unit scsM" where
  "forM f [] = returnM ()"
| "forM f (x # xs) = bindM (f x) (\<lambda>_. forM f xs)"

text \<open>
  \<open>SetVariableID\<close> called with a Go \<open>int\<close> that an offset computed: \<open>vID - 1\<close> and
  \<open>vID + NbPublicVariables\<close> can be negative, which the packed field cannot hold.
\<close>

definition SetVariableID_int :: "int \<Rightarrow> Term \<Rightarrow> error + Term" where
  "SetVariableID_int v t =
     (if v < 0 then Inl PanicVariableIDTooLarge else Inr (SetVariableID (nat v) t))"

definition offsetIDTerm :: "int \<Rightarrow> nat \<Rightarrow> Term \<Rightarrow> error + Term" where
  "offsetIDTerm nbPublic nbSecret t =
     (if t \<noteq> zeroTerm then
        (case VariableVisibility t of
           Public \<Rightarrow> SetVariableID_int (int (VariableID t) - 1) t
         | Secret \<Rightarrow> SetVariableID_int (int (VariableID t) + nbPublic) t
         | Internal \<Rightarrow> SetVariableID_int (int (VariableID t) + nbPublic + int nbSecret) t
         | Unset \<Rightarrow> Inl ErrInputNotSet)
      else Inr t)"

text \<open>The first half of \<open>offsetIDs\<close>: "ensure that L=M[0] and R=M[1] (up to scalar mul)".\<close>

definition alignLM :: "SparseR1C \<Rightarrow> SparseR1C" where
  "alignLM e =
     (let e1 = (if CoeffID (SparseR1C.L e) = 0
                then (if M0 e \<noteq> zeroTerm then e\<lparr>SparseR1C.L := SetCoeffID 0 (M0 e)\<rparr> else e)
                else (if CoeffID (M0 e) = 0 then e\<lparr>M0 := SetCoeffID 0 (SparseR1C.L e)\<rparr> else e));
          e2 = (if CoeffID (SparseR1C.R e1) = 0
                then (if M1 e1 \<noteq> zeroTerm then e1\<lparr>SparseR1C.R := SetCoeffID 0 (M1 e1)\<rparr> else e1)
                else (if CoeffID (M1 e1) = 0 then e1\<lparr>M1 := SetCoeffID 0 (SparseR1C.R e1)\<rparr> else e1))
      in e2)"

definition offsetIDs :: "int \<Rightarrow> nat \<Rightarrow> SparseR1C \<Rightarrow> error + SparseR1C" where
  "offsetIDs nbPublic nbSecret e0 =
     (let e = alignLM e0 in
      bindE (offsetIDTerm nbPublic nbSecret (SparseR1C.L e)) (\<lambda>tl.
      bindE (offsetIDTerm nbPublic nbSecret (SparseR1C.R e)) (\<lambda>tr.
      bindE (offsetIDTerm nbPublic nbSecret (SparseR1C.O e)) (\<lambda>to.
      bindE (offsetIDTerm nbPublic nbSecret (M0 e)) (\<lambda>tm0.
      bindE (offsetIDTerm nbPublic nbSecret (M1 e)) (\<lambda>tm1.
      Inr (e\<lparr>SparseR1C.L := tl, SparseR1C.R := tr, SparseR1C.O := to, M0 := tm0,
               M1 := tm1\<rparr>)))))))"

text \<open>
  The renumbering of one term of a log entry. There is no test for the zero Term
  here, an Internal term goes through the map, and Unset is a panic.
\<close>

definition offsetLogTerm :: "int \<Rightarrow> nat \<Rightarrow> nat list \<Rightarrow> Term \<Rightarrow> error + int" where
  "offsetLogTerm nbPublic nbSecret m t =
     (case VariableVisibility t of
        Public \<Rightarrow> Inr (int (VariableID t) - 1)
      | Secret \<Rightarrow> Inr (int (VariableID t) + nbPublic)
      | Internal \<Rightarrow>
          (if VariableID t < length m
             then Inr (int (m ! VariableID t) + int nbSecret + nbPublic)
           else Inl PanicIndexOutOfRange)
      | Unset \<Rightarrow> Inl PanicUnsetInLogs)"

definition offsetLog :: "int \<Rightarrow> nat \<Rightarrow> nat list \<Rightarrow> logEntry \<Rightarrow> error + LogEntry" where
  "offsetLog nbPublic nbSecret m e =
     bindE (mapE (offsetLogTerm nbPublic nbSecret m) (toResolve e)) (\<lambda>ids.
     Inr \<lparr>Format = format e, ToResolve = ids\<rparr>)"

definition initialState :: "ConstraintSystem \<Rightarrow> sparseR1CS" where
  "initialState cs =
     \<lparr>coeffs = cs_coeffs cs,
      ccs = \<lparr>NbPublicVariables = int (public_variables cs) - 1,
             NbSecretVariables = secret_variables cs,
             NbInternalVariables = 0,
             Constraints = [],
             Assertions = [],
             Logs = replicate (length (logs cs)) \<lparr>Format = [], ToResolve = []\<rparr>\<rparr>,
      mCStoCCS = replicate (internal_variables cs) 0,
      solvedVariables = replicate (internal_variables cs) False\<rparr>"

definition lowerAll :: "ConstraintSystem \<Rightarrow> unit scsM" where
  "lowerAll cs =
     bindM (forM r1cToSparseR1C (constraints cs)) (\<lambda>_.
     forM splitR1C (assertions cs))"

text \<open>
  \<open>toSparseR1CS\<close> up to the dispatch on the curve: the result is the pair
  \<open>(res.ccs, cs.coeffs)\<close> that every branch of the dispatch hands to a backend.
\<close>

definition toSparseR1CS :: "ConstraintSystem \<Rightarrow> error + (SparseR1CS \<times> int list)" where
  "toSparseR1CS cs =
     (case lowerAll cs (initialState cs) of
        Inl e \<Rightarrow> Inl e
      | Inr (_, res) \<Rightarrow>
          (let nbPublic = NbPublicVariables (ccs res); nbSecret = NbSecretVariables (ccs res) in
           bindE (mapE (offsetIDs nbPublic nbSecret) (Constraints (ccs res))) (\<lambda>cs'.
           bindE (mapE (offsetIDs nbPublic nbSecret) (Assertions (ccs res))) (\<lambda>as'.
           bindE (mapE (offsetLog nbPublic nbSecret (mCStoCCS res)) (logs cs)) (\<lambda>ls'.
           Inr ((ccs res)\<lparr>Constraints := cs', Assertions := as', Logs := ls'\<rparr>,
                coeffs res))))))"

section \<open>Meaning of constraints and gates\<close>

text \<open>
  Modelled from the spec: the semantics of an input constraint and of an output gate
  (spec 3). An input assignment gives a value to every public, secret and internal
  variable of the source system; public variable 0 is the ONE\_WIRE. An output
  assignment is indexed by the renumbered identifier.
\<close>

record assignment =
  publicValue :: "nat \<Rightarrow> int"
  secretValue :: "nat \<Rightarrow> int"
  internalValue :: "nat \<Rightarrow> int"

definition inputTermValue :: "int list \<Rightarrow> assignment \<Rightarrow> Term \<Rightarrow> int" where
  "inputTermValue pool a t =
     pool ! CoeffID t *
       (case VariableVisibility t of
          Public \<Rightarrow> (if VariableID t = 0 then 1 else publicValue a (VariableID t))
        | Secret \<Rightarrow> secretValue a (VariableID t)
        | Internal \<Rightarrow> internalValue a (VariableID t)
        | Unset \<Rightarrow> 0)"

definition linExpValue :: "int list \<Rightarrow> assignment \<Rightarrow> Term list \<Rightarrow> int" where
  "linExpValue pool a le = sum_list (map (inputTermValue pool a) le)"

definition r1cHolds :: "int list \<Rightarrow> assignment \<Rightarrow> R1C \<Rightarrow> bool" where
  "r1cHolds pool a c =
     (linExpValue pool a (R1C.L c) * linExpValue pool a (R1C.R c) = linExpValue pool a (R1C.O c))"

definition termValue :: "int list \<Rightarrow> (nat \<Rightarrow> int) \<Rightarrow> Term \<Rightarrow> int" where
  "termValue pool w t = pool ! CoeffID t * w (VariableID t)"

definition gateHolds :: "int list \<Rightarrow> (nat \<Rightarrow> int) \<Rightarrow> SparseR1C \<Rightarrow> bool" where
  "gateHolds pool w g =
     (termValue pool w (SparseR1C.L g) + termValue pool w (SparseR1C.R g)
        + termValue pool w (M0 g) * termValue pool w (M1 g)
        + termValue pool w (SparseR1C.O g) + pool ! K g = 0)"

text \<open>
  The output assignment that extends an input assignment: public variables without
  the ONE\_WIRE, then the secret variables, then the internal wires of the output,
  whose values are \<open>wi\<close>.
\<close>

definition outputAssignment :: "SparseR1CS \<Rightarrow> assignment \<Rightarrow> (nat \<Rightarrow> int) \<Rightarrow> nat \<Rightarrow> int" where
  "outputAssignment c a wi i =
     (if int i < NbPublicVariables c then publicValue a (i + 1)
      else if int i < NbPublicVariables c + int (NbSecretVariables c)
        then secretValue a (nat (int i - NbPublicVariables c))
      else wi (nat (int i - NbPublicVariables c - int (NbSecretVariables c))))"

section \<open>Witness serialisation (internal/backend/bw6-672/witness/witness.go)\<close>

text \<open>
  The field element and its encoder belong to the curve library, outside the
  repository. An element is taken by its canonical value, a natural number below the
  modulus \<open>q\<close>; the encoder writes it big-endian in \<open>Limbs * 8\<close> bytes and the decoder
  reads as many bytes and reduces modulo \<open>q\<close>. \<open>Limbs\<close> and \<open>q\<close> are parameters. The
  writer is a buffer in memory, the reader a finite stream of bytes.
\<close>

type_synonym byte = "8 word"

fun be_bytes :: "nat \<Rightarrow> nat \<Rightarrow> byte list" where
  "be_bytes 0 v = []"
| "be_bytes (Suc n) v = be_bytes n (v div 256) @ [of_nat (v mod 256)]"

definition be_value :: "byte list \<Rightarrow> nat" where
  "be_value bs = foldl (\<lambda>a b. a * 256 + unat b) 0 bs"

text \<open>The conversion of the length, \<open>uint32(len(w))\<close>.\<close>

definition uint32 :: "nat \<Rightarrow> nat" where
  "uint32 n = n mod 2 ^ 32"

definition WriteTo :: "nat \<Rightarrow> nat list \<Rightarrow> byte list \<times> int" where
  "WriteTo limbs witness =
     (be_bytes 4 (uint32 (length witness)) @ concat (map (be_bytes (limbs * 8)) witness),
      int (length witness * (limbs * 8)) + 4)"

datatype io_error = EOF | ErrUnexpectedEOF | InvalidWitnessSize

text \<open>
  The decoding loop over a reader that holds \<open>lr\<close>: the elements decoded, the number
  of bytes read and the error that stopped the loop.
\<close>

fun decodeElements :: "nat \<Rightarrow> nat \<Rightarrow> nat \<Rightarrow> byte list \<Rightarrow> nat list \<times> nat \<times> io_error option" where
  "decodeElements limbs q 0 lr = ([], 0, None)"
| "decodeElements limbs q (Suc k) lr =
     (if length lr < limbs * 8
        then ([], length lr, Some (if lr = [] then EOF else ErrUnexpectedEOF))
      else (case decodeElements limbs q k (drop (limbs * 8) lr) of
              (es, n, e) \<Rightarrow> (be_value (take (limbs * 8) lr) mod q # es, limbs * 8 + n, e)))"

record readResult =
  bytesRead :: int
  readError :: "io_error option"
  decoded :: "nat list"
  remaining :: "byte list"

definition LimitReadFrom :: "nat \<Rightarrow> nat \<Rightarrow> nat list \<Rightarrow> byte list \<Rightarrow> int \<Rightarrow> readResult" where
  "LimitReadFrom limbs q witness r expectedSize =
     (if length r < 4
        then \<lparr>bytesRead = int (length r),
              readError = Some (if r = [] then EOF else ErrUnexpectedEOF),
              decoded = witness, remaining = []\<rparr>
      else
        (let sliceLen = be_value (take 4 r); r1 = drop 4 r in
         if int sliceLen \<noteq> expectedSize
           then \<lparr>bytesRead = 4, readError = Some InvalidWitnessSize, decoded = witness,
                 remaining = r1\<rparr>
         else
           (let w0 = (if length witness \<noteq> sliceLen then replicate sliceLen 0 else witness);
                lr = take (nat (expectedSize * int limbs * 8)) r1
            in (case decodeElements limbs q sliceLen lr of
                  (es, n, e) \<Rightarrow>
                    \<lparr>bytesRead = int n + 4, readError = e,
                     decoded = es @ drop (length es) w0, remaining = drop n r1\<rparr>))))"

section \<open>Vocabulary of the proofs\<close>

text \<open>
  What a computation appends to the output (\<open>grows\<close>, \<open>emits\<close>, \<open>keeps\<close>), and the
  conditions under which the indices it reads are in range.
\<close>

definition grows :: "SolvingMethod \<Rightarrow> sparseR1CS \<Rightarrow> sparseR1CS \<Rightarrow> bool" where
  "grows tag s s' =
     (\<exists>gs as. Constraints (ccs s') = Constraints (ccs s) @ gs \<and>
        Assertions (ccs s') = Assertions (ccs s) @ as \<and>
        list_all (\<lambda>g. SparseR1C.Solver g = tag) (gs @ as))"

definition emits :: "SolvingMethod \<Rightarrow> 'a scsM \<Rightarrow> bool" where
  "emits tag m = (\<forall>s x s'. m s = Inr (x, s') \<longrightarrow> grows tag s s')"

definition keeps :: "'a scsM \<Rightarrow> bool" where
  "keeps m = (\<forall>s x s'. m s = Inr (x, s') \<longrightarrow>
     Constraints (ccs s') = Constraints (ccs s) \<and> Assertions (ccs s') = Assertions (ccs s))"

definition coeffsIn :: "sparseR1CS \<Rightarrow> Term list \<Rightarrow> bool" where
  "coeffsIn s ts = list_all (\<lambda>t. CoeffID t < length (coeffs s)) ts"

definition internalsMapped :: "sparseR1CS \<Rightarrow> Term list \<Rightarrow> bool" where
  "internalsMapped s ts =
     list_all (\<lambda>t. if VariableVisibility t = Internal then VariableID t < length (mCStoCCS s)
                    else True) ts"

definition bitsIndexed :: "sparseR1CS \<Rightarrow> Term list \<Rightarrow> bool" where
  "bitsIndexed s ts =
     list_all (\<lambda>t. VariableID t < length (mCStoCCS s) \<and>
                    VariableID t < length (solvedVariables s)) ts"

definition extends :: "sparseR1CS \<Rightarrow> sparseR1CS \<Rightarrow> bool" where
  "extends s s' =
     (length (coeffs s) \<le> length (coeffs s') \<and>
      length (mCStoCCS s') = length (mCStoCCS s) \<and>
      length (solvedVariables s') = length (solvedVariables s))"

definition okTerm :: "sparseR1CS \<Rightarrow> Term \<Rightarrow> bool" where
  "okTerm s t = (t = zeroTerm \<or> CoeffID t < length (coeffs s))"

section \<open>Concrete inputs\<close>

text \<open>Inputs on which the theorems below evaluate the pass.\<close>

definition r1c_stale :: R1C where
  "r1c_stale = \<lparr>R1C.L = [Pack 0 1 Internal], R1C.R = [Pack 0 1 Public],
     R1C.O = [Pack 1 1 Public], R1C.Solver = SingleOutput\<rparr>"

definition cs_f5 :: ConstraintSystem where
  "cs_f5 = \<lparr>public_variables = 2, secret_variables = 1, internal_variables = 1,
     constraints = [\<lparr>R1C.L = [Pack 0 1 Public], R1C.R = [Pack 0 1 Public],
                     R1C.O = [Pack 0 1 Internal, Pack 0 1 Secret], R1C.Solver = SingleOutput\<rparr>],
     assertions = [\<lparr>R1C.L = [Pack 0 1 Internal], R1C.R = [Pack 0 1 Public],
                     R1C.O = [Pack 1 1 Public], R1C.Solver = SingleOutput\<rparr>],
     logs = [], cs_coeffs = [0, 1, - 1, 2]\<rparr>"

definition a_f5 :: assignment where
  "a_f5 = \<lparr>publicValue = (\<lambda>i. - 2), secretValue = (\<lambda>i. 3), internalValue = (\<lambda>i. - 2)\<rparr>"

definition out_f5 :: SparseR1CS where
  "out_f5 = \<lparr>NbPublicVariables = 1, NbSecretVariables = 1, NbInternalVariables = 1,
     Constraints =
       [emptyGate\<lparr>SparseR1C.L := Pack 1 1 Secret, SparseR1C.O := Pack 2 2 Internal,
          M0 := Pack 1 0 Secret, K := 2\<rparr>],
     Assertions =
       [emptyGate\<lparr>SparseR1C.L := Pack 2 1 Internal, SparseR1C.O := Pack 0 2 Public,
          M0 := Pack 2 0 Internal\<rparr>],
     Logs = []\<rparr>"

definition s_f5 :: sparseR1CS where
  "s_f5 = \<lparr>coeffs = [0, 1, - 1, 2],
      ccs = \<lparr>NbPublicVariables = 1, NbSecretVariables = 1, NbInternalVariables = 0,
             Constraints = [], Assertions = [], Logs = []\<rparr>,
      mCStoCCS = [0], solvedVariables = [False]\<rparr>"

definition r1c_odd :: R1C where
  "r1c_odd = \<lparr>R1C.L = [Pack 0 3 Internal], R1C.R = [Pack 0 1 Public],
     R1C.O = [Pack 0 1 Secret], R1C.Solver = BinaryDec\<rparr>"

definition r1c_bit :: R1C where
  "r1c_bit = \<lparr>R1C.L = [Pack 0 1 Internal], R1C.R = [Pack 0 1 Public],
     R1C.O = [Pack 0 1 Public], R1C.Solver = BinaryDec\<rparr>"

definition r1c_const :: R1C where
  "r1c_const = \<lparr>R1C.L = [Pack 0 1 Public], R1C.R = [Pack 0 1 Public], R1C.O = [],
     R1C.Solver = SingleOutput\<rparr>"

definition r1c_resolved :: R1C where
  "r1c_resolved = \<lparr>R1C.L = [Pack 0 1 Public], R1C.R = [Pack 0 1 Public],
     R1C.O = [Pack 0 1 Internal], R1C.Solver = SingleOutput\<rparr>"

definition r1c_mul :: R1C where
  "r1c_mul = \<lparr>R1C.L = [Pack 0 1 Secret], R1C.R = [Pack 0 1 Secret],
     R1C.O = [Pack 0 1 Internal], R1C.Solver = SingleOutput\<rparr>"

definition r1c_lin :: R1C where
  "r1c_lin = \<lparr>R1C.L = [Pack 1 1 Secret], R1C.R = [Pack 0 1 Public], R1C.O = [],
     R1C.Solver = SingleOutput\<rparr>"

definition cs_a8 :: ConstraintSystem where
  "cs_a8 = \<lparr>public_variables = 2, secret_variables = 2, internal_variables = 0,
     constraints = [],
     assertions = [\<lparr>R1C.L = [Pack 0 1 Secret], R1C.R = [Pack 1 1 Secret],
                     R1C.O = [Pack 1 1 Public], R1C.Solver = SingleOutput\<rparr>],
     logs = [], cs_coeffs = [0, 1, - 1, 2]\<rparr>"

definition gate_f12 :: SparseR1C where
  "gate_f12 = emptyGate\<lparr>SparseR1C.R := Pack 3 1 Internal, M0 := Pack 3 1 Internal,
     M1 := Pack 7 1 Secret, SparseR1C.O := Pack 2 2 Internal\<rparr>"

definition gate_lin :: SparseR1C where
  "gate_lin = emptyGate\<lparr>SparseR1C.L := Pack 4 1 Secret, SparseR1C.O := Pack 0 1 Internal\<rparr>"



definition w_huge :: "nat list" where
  "w_huge = replicate (2 ^ 32) 0"

section \<open>Properties\<close>

subsection \<open>The coefficient pool\<close>

lemma indexOf_Some: "indexOf b cs = Some i \<Longrightarrow> i < length cs \<and> cs ! i = b"
  by (induction cs arbitrary: i) (auto split: if_splits option.splits)

lemma coeffID_result:
  "coeffID b s = Inr (i, s') \<Longrightarrow>
     i < length (coeffs s') \<and> coeffs s' ! i = b \<and>
     take (length (coeffs s)) (coeffs s') = coeffs s \<and> length (coeffs s) \<le> length (coeffs s') \<and>
     ccs s' = ccs s \<and> mCStoCCS s' = mCStoCCS s \<and> solvedVariables s' = solvedVariables s"
  by (auto simp: coeffID_def nth_append split: option.splits dest: indexOf_Some)

lemma coeffID_total: "\<exists>i s'. coeffID b s = Inr (i, s')"
  by (simp add: coeffID_def split: option.splits)

subsection \<open>findUnsolvedVariable\<close>

text \<open>
  C7. \<open>findUnsolvedVariable\<close> is to return the pair (-1, -1) when no Internal term is
  unsolved. On the constraint \<open>t * 1 = y\<close> whose only Internal variable \<open>t\<close> (variable
  0) is already solved, it returns position -1 with the identifier 0 of that solved
  variable: \<open>id\<close> is assigned before the solved flag is read and is never reset.
\<close>

theorem findUnsolvedVariable_stale_id:
  "findUnsolvedVariable r1c_stale [True] = Inr (- 1, 0)"
  by (simp add: findUnsolvedVariable_def r1c_stale_def)

subsection \<open>negate\<close>

text \<open>
  C10. \<open>negate\<close> returns the zero sentinel unchanged. For a term that is not the
  sentinel and whose coefficient index lies in the pool, it returns a term with the
  same variable identifier and visibility, whose coefficient index is the one the
  pool gives (\<open>coeffID\<close>) to the negation of the original coefficient; the pool entry
  at that index is the negated coefficient, and the old pool is a prefix of the new.
\<close>

theorem negate_spec:
  "negate zeroTerm s = Inr (zeroTerm, s) \<and>
   (t \<noteq> zeroTerm \<and> CoeffID t < length (coeffs s) \<longrightarrow>
     (\<exists>t' s'. negate t s = Inr (t', s') \<and>
        coeffID (- (coeffs s ! CoeffID t)) s = Inr (CoeffID t', s') \<and>
        VariableID t' = VariableID t \<and> VariableVisibility t' = VariableVisibility t \<and>
        CoeffID t' < length (coeffs s') \<and>
        coeffs s' ! CoeffID t' = - (coeffs s ! CoeffID t) \<and>
        take (length (coeffs s)) (coeffs s') = coeffs s))"
proof (intro conjI impI)
  show "negate zeroTerm s = Inr (zeroTerm, s)"
    by (simp add: negate_def returnM_def)
next
  assume a: "t \<noteq> zeroTerm \<and> CoeffID t < length (coeffs s)"
  obtain i s' where c: "coeffID (- (coeffs s ! CoeffID t)) s = Inr (i, s')"
    using coeffID_total by blast
  have n: "negate t s = Inr (SetCoeffID i t, s')"
    using a c by (simp add: negate_def bindM_def coeffAt_def returnM_def)
  from coeffID_result [OF c] n c show "\<exists>t' s'. negate t s = Inr (t', s') \<and>
        coeffID (- (coeffs s ! CoeffID t)) s = Inr (CoeffID t', s') \<and>
        VariableID t' = VariableID t \<and> VariableVisibility t' = VariableVisibility t \<and>
        CoeffID t' < length (coeffs s') \<and>
        coeffs s' ! CoeffID t' = - (coeffs s ! CoeffID t) \<and>
        take (length (coeffs s)) (coeffs s') = coeffs s"
    by (simp add: SetCoeffID_def)
qed

theorem negate_spec_witness:
  "Pack 4 3 Secret \<noteq> zeroTerm \<and> CoeffID (Pack 4 3 Secret) < length (coeffs (initialState cs_f5)) \<and>
   negate zeroTerm (initialState cs_f5) = Inr (zeroTerm, initialState cs_f5) \<and>
   (\<exists>t' s'. negate (Pack 4 3 Secret) (initialState cs_f5) = Inr (t', s') \<and>
      VariableID t' = 4 \<and> VariableVisibility t' = Secret \<and> coeffs s' ! CoeffID t' = - 2)"
proof -
  have h: "Pack 4 3 Secret \<noteq> zeroTerm \<and>
      CoeffID (Pack 4 3 Secret) < length (coeffs (initialState cs_f5))"
    by (simp add: initialState_def cs_f5_def zeroTerm_def)
  have v: "coeffs (initialState cs_f5) ! CoeffID (Pack 4 3 Secret) = 2"
    by (simp add: initialState_def cs_f5_def)
  from negate_spec [of "initialState cs_f5" "Pack 4 3 Secret"] h
  obtain t' s' where r: "negate (Pack 4 3 Secret) (initialState cs_f5) = Inr (t', s')"
      "VariableID t' = VariableID (Pack 4 3 Secret)"
      "VariableVisibility t' = VariableVisibility (Pack 4 3 Secret)"
      "coeffs s' ! CoeffID t' = - (coeffs (initialState cs_f5) ! CoeffID (Pack 4 3 Secret))"
    by blast
  have z: "negate zeroTerm (initialState cs_f5) = Inr (zeroTerm, initialState cs_f5)"
    using negate_spec [of "initialState cs_f5" "Pack 4 3 Secret"] by blast
  from r v have "\<exists>t' s'. negate (Pack 4 3 Secret) (initialState cs_f5) = Inr (t', s') \<and>
      VariableID t' = 4 \<and> VariableVisibility t' = Secret \<and> coeffs s' ! CoeffID t' = - 2"
    by auto
  with h z show ?thesis by blast
qed

subsection \<open>The gate identity\<close>

text \<open>
  C1. A satisfying assignment of the input is to satisfy every gate of the
  renumbered output, once extended to the internal wires. The system \<open>cs_f5\<close> has the
  constraint \<open>1 * 1 = t + x\<close> (case 1100, closure \<open>f5\<close>) and the assertion
  \<open>t * 1 = y\<close>; the assignment \<open>y = -2, x = 3, t = -2\<close> satisfies both. The pass
  succeeds and emits the gates \<open>x - t' - 1 = 0\<close> and \<open>t' - y = 0\<close>, which no value of
  the internal wire \<open>t'\<close> satisfies together.
\<close>

theorem gate_identity_fails_f5:
  "toSparseR1CS cs_f5 = Inr (out_f5, [0, 1, - 1, 2]) \<and>
   list_all (r1cHolds (cs_coeffs cs_f5) a_f5) (constraints cs_f5 @ assertions cs_f5) \<and>
   \<not> (\<exists>wi. list_all (gateHolds [0, 1, - 1, 2] (outputAssignment out_f5 a_f5 wi))
              (Constraints out_f5 @ Assertions out_f5))"
proof (intro conjI)
  show "toSparseR1CS cs_f5 = Inr (out_f5, [0, 1, - 1, 2])"
    by code_simp
  show "list_all (r1cHolds (cs_coeffs cs_f5) a_f5) (constraints cs_f5 @ assertions cs_f5)"
    by (simp add: cs_f5_def a_f5_def r1cHolds_def linExpValue_def inputTermValue_def)
  show "\<not> (\<exists>wi. list_all (gateHolds [0, 1, - 1, 2] (outputAssignment out_f5 a_f5 wi))
              (Constraints out_f5 @ Assertions out_f5))"
    by (simp add: out_f5_def a_f5_def gateHolds_def termValue_def outputAssignment_def
        emptyGate_def zeroTerm_def)
qed

subsection \<open>Solver tags of the emitted gates\<close>

lemma grows_refl: "grows tag s s"
  by (simp add: grows_def)

lemma grows_trans: "grows tag s s1 \<Longrightarrow> grows tag s1 s2 \<Longrightarrow> grows tag s s2"
  unfolding grows_def
proof (elim exE conjE)
  fix gs as gs' as'
  assume a: "Constraints (ccs s1) = Constraints (ccs s) @ gs"
            "Assertions (ccs s1) = Assertions (ccs s) @ as"
            "list_all (\<lambda>g. SparseR1C.Solver g = tag) (gs @ as)"
            "Constraints (ccs s2) = Constraints (ccs s1) @ gs'"
            "Assertions (ccs s2) = Assertions (ccs s1) @ as'"
            "list_all (\<lambda>g. SparseR1C.Solver g = tag) (gs' @ as')"
  have "Constraints (ccs s2) = Constraints (ccs s) @ (gs @ gs') \<and>
        Assertions (ccs s2) = Assertions (ccs s) @ (as @ as') \<and>
        list_all (\<lambda>g. SparseR1C.Solver g = tag) ((gs @ gs') @ (as @ as'))"
    using a by simp
  then show "\<exists>gs as. Constraints (ccs s2) = Constraints (ccs s) @ gs \<and>
        Assertions (ccs s2) = Assertions (ccs s) @ as \<and>
        list_all (\<lambda>g. SparseR1C.Solver g = tag) (gs @ as)"
    by blast
qed

lemma bindM_Inr:
  "bindM m f s = Inr r \<Longrightarrow> \<exists>x s1. m s = Inr (x, s1) \<and> f x s1 = Inr r"
  by (auto simp: bindM_def split: sum.splits)

lemma keepsI:
  "(\<And>s x s'. m s = Inr (x, s') \<Longrightarrow>
      Constraints (ccs s') = Constraints (ccs s) \<and> Assertions (ccs s') = Assertions (ccs s))
   \<Longrightarrow> keeps m"
  unfolding keeps_def by blast

lemma emitsI: "(\<And>s x s'. m s = Inr (x, s') \<Longrightarrow> grows tag s s') \<Longrightarrow> emits tag m"
  unfolding emits_def by blast

lemma keeps_emits: "keeps m \<Longrightarrow> emits tag m"
  unfolding keeps_def emits_def grows_def by simp

lemma keeps_return: "keeps (returnM x)"
  by (simp add: keeps_def returnM_def)

lemma keepsD:
  "keeps m \<Longrightarrow> m s = Inr (x, s') \<Longrightarrow>
     Constraints (ccs s') = Constraints (ccs s) \<and> Assertions (ccs s') = Assertions (ccs s)"
  unfolding keeps_def by blast

lemma emitsD: "emits tag m \<Longrightarrow> m s = Inr (x, s') \<Longrightarrow> grows tag s s'"
  unfolding emits_def by blast

lemma keeps_bind:
  assumes "keeps m" and "\<And>x. keeps (f x)"
  shows "keeps (bindM m f)"
proof (rule keepsI)
  fix s x s'
  assume "bindM m f s = Inr (x, s')"
  then obtain y s1 where 1: "m s = Inr (y, s1)" and 2: "f y s1 = Inr (x, s')"
    using bindM_Inr by blast
  from keepsD [OF assms(1) 1] keepsD [OF assms(2) 2]
  show "Constraints (ccs s') = Constraints (ccs s) \<and> Assertions (ccs s') = Assertions (ccs s)"
    by simp
qed

lemma emits_return: "emits tag (returnM x)"
  by (simp add: keeps_emits keeps_return)

lemma emits_bind:
  assumes "emits tag m" and "\<And>x. emits tag (f x)"
  shows "emits tag (bindM m f)"
proof (rule emitsI)
  fix s x s'
  assume "bindM m f s = Inr (x, s')"
  then obtain y s1 where 1: "m s = Inr (y, s1)" and 2: "f y s1 = Inr (x, s')"
    using bindM_Inr by blast
  from emitsD [OF assms(1) 1] emitsD [OF assms(2) 2]
  show "grows tag s s'"
    by (rule grows_trans)
qed

lemma emits_if: "emits tag a \<Longrightarrow> emits tag b \<Longrightarrow> emits tag (if c then a else b)"
  by simp

lemma emits_case_prod: "(\<And>a b. emits tag (f a b)) \<Longrightarrow> emits tag (case p of (a, b) \<Rightarrow> f a b)"
  by (cases p) simp

lemma keeps_if: "keeps a \<Longrightarrow> keeps b \<Longrightarrow> keeps (if c then a else b)"
  by simp

lemma keeps_coeffID: "keeps (coeffID b)"
proof (rule keepsI)
  fix s x s'
  assume "(coeffID b) s = Inr (x, s')"
  then show "Constraints (ccs s') = Constraints (ccs s) \<and> Assertions (ccs s') = Assertions (ccs s)"
    by (auto simp: coeffID_def split: option.splits)
qed

lemma keeps_coeffAt: "keeps (coeffAt i)"
proof (rule keepsI)
  fix s x s'
  assume "(coeffAt i) s = Inr (x, s')"
  then show "Constraints (ccs s') = Constraints (ccs s) \<and> Assertions (ccs s') = Assertions (ccs s)"
    by (auto simp: coeffAt_def split: if_splits)
qed

lemma keeps_liftE: "keeps (liftE r)"
proof (rule keepsI)
  fix s x s'
  assume "(liftE r) s = Inr (x, s')"
  then show "Constraints (ccs s') = Constraints (ccs s) \<and> Assertions (ccs s') = Assertions (ccs s)"
    by (auto simp: liftE_def split: sum.splits)
qed

lemma keeps_popConstantTerm: "keeps (popConstantTerm l)"
proof (rule keepsI)
  fix s x s'
  assume "(popConstantTerm l) s = Inr (x, s')"
  then show "Constraints (ccs s') = Constraints (ccs s) \<and> Assertions (ccs s') = Assertions (ccs s)"
    by (auto simp: popConstantTerm_def split: sum.splits)
qed

lemma keeps_getCorrespondingTerm: "keeps (getCorrespondingTerm t)"
proof (rule keepsI)
  fix s x s'
  assume "(getCorrespondingTerm t) s = Inr (x, s')"
  then show "Constraints (ccs s') = Constraints (ccs s) \<and> Assertions (ccs s') = Assertions (ccs s)"
    by (auto simp: getCorrespondingTerm_def split: if_splits)
qed

lemma keeps_allocInternal: "keeps allocInternal"
proof (rule keepsI)
  fix s x s'
  assume "allocInternal s = Inr (x, s')"
  then show "Constraints (ccs s') = Constraints (ccs s) \<and> Assertions (ccs s') = Assertions (ccs s)"
    by (auto simp: allocInternal_def)
qed

lemma keeps_setCStoCCS: "keeps (setCStoCCS i v)"
proof (rule keepsI)
  fix s x s'
  assume "(setCStoCCS i v) s = Inr (x, s')"
  then show "Constraints (ccs s') = Constraints (ccs s) \<and> Assertions (ccs s') = Assertions (ccs s)"
    by (auto simp: setCStoCCS_def split: option.splits if_splits)
qed

lemma keeps_newTerm: "keeps (newTerm c i)"
  unfolding newTerm_def
  by (intro keeps_bind keeps_coeffID keeps_allocInternal keeps_setCStoCCS keeps_return)

lemma keeps_negate: "keeps (negate t)"
  unfolding negate_def
  by (intro keeps_if keeps_bind keeps_coeffID keeps_coeffAt keeps_return)

lemma keeps_multiply: "keeps (multiply t c)"
  unfolding multiply_def multiply_general_def
  by (intro keeps_if keeps_bind keeps_coeffID keeps_coeffAt keeps_return)

lemma keeps_markSolved: "keeps (markSolved i)"
proof (rule keepsI)
  fix s x s'
  assume "(markSolved i) s = Inr (x, s')"
  then show "Constraints (ccs s') = Constraints (ccs s) \<and> Assertions (ccs s') = Assertions (ccs s)"
    by (auto simp: markSolved_def split: if_splits)
qed

lemma keeps_getSolvedVariables: "keeps getSolvedVariables"
proof (rule keepsI)
  fix s x s'
  assume "getSolvedVariables s = Inr (x, s')"
  then show "Constraints (ccs s') = Constraints (ccs s) \<and> Assertions (ccs s') = Assertions (ccs s)"
    by (auto simp: getSolvedVariables_def)
qed

lemma keeps_consumeBit: "keeps (consumeBit acc ri bd)"
proof (rule keepsI)
  fix s x s'
  assume "(consumeBit acc ri bd) s = Inr (x, s')"
  then show "Constraints (ccs s') = Constraints (ccs s) \<and> Assertions (ccs s') = Assertions (ccs s)"
    by (auto simp: consumeBit_def split: sum.splits option.splits if_splits)
qed

lemma Solver_fixVariableIDs: "SparseR1C.Solver (fixVariableIDs c) = SparseR1C.Solver c"
  by (simp add: fixVariableIDs_def Let_def)

lemma emits_addConstraint:
  assumes "SparseR1C.Solver g = tag"
  shows "emits tag (addConstraint g)"
proof (rule emitsI)
  fix s x s'
  assume "addConstraint g s = Inr (x, s')"
  then have "Constraints (ccs s') = Constraints (ccs s) @ [fixVariableIDs g] \<and>
      Assertions (ccs s') = Assertions (ccs s) @ []"
    by (auto simp: addConstraint_def)
  moreover have "list_all (\<lambda>g. SparseR1C.Solver g = tag) ([fixVariableIDs g] @ [])"
    using assms by (simp add: Solver_fixVariableIDs)
  ultimately show "grows tag s s'"
    unfolding grows_def by blast
qed

lemma emits_recordAssertion:
  assumes "SparseR1C.Solver g = tag"
  shows "emits tag (recordAssertion g)"
proof (rule emitsI)
  fix s x s'
  assume "recordAssertion g s = Inr (x, s')"
  then have "Constraints (ccs s') = Constraints (ccs s) @ [] \<and>
      Assertions (ccs s') = Assertions (ccs s) @ [g]"
    by (auto simp: recordAssertion_def)
  moreover have "list_all (\<lambda>g. SparseR1C.Solver g = tag) ([] @ [g])"
    using assms by simp
  ultimately show "grows tag s s'"
    unfolding grows_def by blast
qed

lemmas keeps_prims = keeps_coeffID keeps_coeffAt keeps_liftE keeps_popConstantTerm
  keeps_getCorrespondingTerm keeps_newTerm keeps_negate keeps_multiply keeps_markSolved
  keeps_getSolvedVariables keeps_consumeBit

lemmas emits_prims = keeps_prims [THEN keeps_emits]

lemma emits_split: "emits SingleOutput (split acc le)"
proof (induction le arbitrary: acc)
  case Nil
  show ?case by (simp add: emits_return)
next
  case (Cons x le)
  show ?case
    apply (simp only: split.simps)
    apply (intro emits_if emits_bind emits_prims emits_addConstraint Cons.IH)
    apply (simp add: emptyGate_def)
    done
qed

lemmas emits_rules = emits_bind emits_if emits_case_prod emits_return emits_prims emits_split
  emits_addConstraint emits_recordAssertion

lemma emits_dispatch16: "emits SingleOutput (dispatch16 lro cL cR cO cS idCS l r ol)"
  unfolding dispatch16_def f1_def f2_def f3_def f4_def f5_def f6_def f7_def f8_def f9_def
    f10_def f11_def f12_def f13_def f14_def f15_def f16_def
  by (intro emits_rules) (simp_all add: emptyGate_def)

lemma emits_SingleOutput: "emits SingleOutput (r1cToPlonkConstraintSingleOutput r1c)"
  unfolding r1cToPlonkConstraintSingleOutput_def Let_def
  by (intro emits_rules emits_dispatch16)

lemma emits_splitR1C: "emits SingleOutput (splitR1C r1c)"
  unfolding splitR1C_def
  by (intro emits_rules) (simp_all add: emptyGate_def)

lemma emits_reduceO: "emits SingleOutput (reduceO ol)"
  unfolding reduceO_def
  by (intro emits_rules) (simp_all add: emptyGate_def)

lemma addConstraint_Inr:
  "addConstraint g s = Inr (x, s') \<Longrightarrow>
     Constraints (ccs s') = Constraints (ccs s) @ [fixVariableIDs g] \<and>
     Assertions (ccs s') = Assertions (ccs s)"
  by (auto simp: addConstraint_def)

lemma binaryLoop_gates:
  "binaryLoop n acc q bd s = Inr (rest, s') \<Longrightarrow>
     \<exists>gs. Constraints (ccs s') = Constraints (ccs s) @ gs \<and> length gs = n \<and>
       list_all (\<lambda>g. SparseR1C.Solver g = BinaryDec) gs \<and>
       Assertions (ccs s') = Assertions (ccs s)"
proof (induction n arbitrary: acc q bd s)
  case 0
  then show ?case by (simp add: returnM_def)
next
  case (Suc n)
  from Suc.prems obtain ri s1 qi s2 bd' s3 tq s4 nq s5 u s6 where
    1: "newTerm 1 None s = Inr (ri, s1)" and
    2: "newTerm 1 None s1 = Inr (qi, s2)" and
    3: "consumeBit acc ri bd s2 = Inr (bd', s3)" and
    4: "multiply qi 2 s3 = Inr (tq, s4)" and
    5: "negate q s4 = Inr (nq, s5)" and
    6: "addConstraint (emptyGate\<lparr>SparseR1C.L := tq, SparseR1C.R := ri, SparseR1C.O := nq,
              SparseR1C.Solver := BinaryDec\<rparr>) s5 = Inr (u, s6)" and
    r6: "binaryLoop n (acc * 2) qi bd' s6 = Inr (rest, s')"
    by (auto simp only: binaryLoop.simps dest!: bindM_Inr)
  define g where "g = emptyGate\<lparr>SparseR1C.L := tq, SparseR1C.R := ri, SparseR1C.O := nq,
              SparseR1C.Solver := BinaryDec\<rparr>"
  have k: "Constraints (ccs s5) = Constraints (ccs s) \<and> Assertions (ccs s5) = Assertions (ccs s)"
    using keepsD [OF keeps_newTerm 1] keepsD [OF keeps_newTerm 2] keepsD [OF keeps_consumeBit 3]
      keepsD [OF keeps_multiply 4] keepsD [OF keeps_negate 5]
    by simp
  from addConstraint_Inr [OF 6] k g_def
  have a: "Constraints (ccs s6) = Constraints (ccs s) @ [fixVariableIDs g] \<and>
      Assertions (ccs s6) = Assertions (ccs s)"
    by simp
  from Suc.IH [OF r6] obtain gs where
    gs: "Constraints (ccs s') = Constraints (ccs s6) @ gs" "length gs = n"
      "list_all (\<lambda>g. SparseR1C.Solver g = BinaryDec) gs"
      "Assertions (ccs s') = Assertions (ccs s6)"
    by blast
  have t: "SparseR1C.Solver (fixVariableIDs g) = BinaryDec"
    by (simp add: Solver_fixVariableIDs g_def)
  have "Constraints (ccs s') = Constraints (ccs s) @ (fixVariableIDs g # gs) \<and>
      length (fixVariableIDs g # gs) = Suc n \<and>
      list_all (\<lambda>g. SparseR1C.Solver g = BinaryDec) (fixVariableIDs g # gs) \<and>
      Assertions (ccs s') = Assertions (ccs s)"
    using a gs t by simp
  then show ?case by blast
qed

text \<open>
  C5 (as amended). Of the gates that \<open>r1cToPlonkConstraintBinary\<close> appends, exactly the
  last \<open>len(L)\<close>, those of the per-bit loop, carry the tag \<open>BinaryDec\<close>; the gates
  before them, which reduce the O side to one term and fold its constant, carry the
  default tag \<open>SingleOutput\<close>. Every gate appended by the single-output lowering and
  by \<open>splitR1C\<close> (to Constraints or to Assertions) carries \<open>SingleOutput\<close>.
\<close>

theorem solver_tags:
  "(r1cToPlonkConstraintBinary r1c s = Inr (u, s') \<longrightarrow>
      (\<exists>pre bits as. Constraints (ccs s') = Constraints (ccs s) @ pre @ bits \<and>
         Assertions (ccs s') = Assertions (ccs s) @ as \<and>
         list_all (\<lambda>g. SparseR1C.Solver g = SingleOutput) (pre @ as) \<and>
         list_all (\<lambda>g. SparseR1C.Solver g = BinaryDec) bits \<and>
         length bits = length (R1C.L r1c))) \<and>
   (r1cToPlonkConstraintSingleOutput r1c s = Inr (u, s') \<longrightarrow>
      (\<exists>gs as. Constraints (ccs s') = Constraints (ccs s) @ gs \<and>
         Assertions (ccs s') = Assertions (ccs s) @ as \<and>
         list_all (\<lambda>g. SparseR1C.Solver g = SingleOutput) (gs @ as))) \<and>
   (splitR1C r1c s = Inr (u, s') \<longrightarrow>
      (\<exists>gs as. Constraints (ccs s') = Constraints (ccs s) @ gs \<and>
         Assertions (ccs s') = Assertions (ccs s) @ as \<and>
         list_all (\<lambda>g. SparseR1C.Solver g = SingleOutput) (gs @ as)))"
proof (intro conjI impI)
  assume b: "r1cToPlonkConstraintBinary r1c s = Inr (u, s')"
  then obtain ot s1 rest where 1: "reduceO (R1C.O r1c) s = Inr (ot, s1)"
    and 2: "binaryLoop (length (R1C.L r1c)) 1 ot (R1C.L r1c) s1 = Inr (rest, s')"
    unfolding r1cToPlonkConstraintBinary_def
    by (auto simp: returnM_def dest!: bindM_Inr)
  from emitsD [OF emits_reduceO 1] obtain pre as where
    p: "Constraints (ccs s1) = Constraints (ccs s) @ pre"
       "Assertions (ccs s1) = Assertions (ccs s) @ as"
       "list_all (\<lambda>g. SparseR1C.Solver g = SingleOutput) (pre @ as)"
    unfolding grows_def by blast
  from binaryLoop_gates [OF 2] obtain bits where
    q: "Constraints (ccs s') = Constraints (ccs s1) @ bits" "length bits = length (R1C.L r1c)"
       "list_all (\<lambda>g. SparseR1C.Solver g = BinaryDec) bits"
       "Assertions (ccs s') = Assertions (ccs s1)"
    by blast
  have "Constraints (ccs s') = Constraints (ccs s) @ pre @ bits \<and>
         Assertions (ccs s') = Assertions (ccs s) @ as \<and>
         list_all (\<lambda>g. SparseR1C.Solver g = SingleOutput) (pre @ as) \<and>
         list_all (\<lambda>g. SparseR1C.Solver g = BinaryDec) bits \<and>
         length bits = length (R1C.L r1c)"
    using p q by simp
  then show "\<exists>pre bits as. Constraints (ccs s') = Constraints (ccs s) @ pre @ bits \<and>
         Assertions (ccs s') = Assertions (ccs s) @ as \<and>
         list_all (\<lambda>g. SparseR1C.Solver g = SingleOutput) (pre @ as) \<and>
         list_all (\<lambda>g. SparseR1C.Solver g = BinaryDec) bits \<and>
         length bits = length (R1C.L r1c)"
    by blast
next
  assume "r1cToPlonkConstraintSingleOutput r1c s = Inr (u, s')"
  from emitsD [OF emits_SingleOutput this]
  show "\<exists>gs as. Constraints (ccs s') = Constraints (ccs s) @ gs \<and>
         Assertions (ccs s') = Assertions (ccs s) @ as \<and>
         list_all (\<lambda>g. SparseR1C.Solver g = SingleOutput) (gs @ as)"
    unfolding grows_def .
next
  assume "splitR1C r1c s = Inr (u, s')"
  from emitsD [OF emits_splitR1C this]
  show "\<exists>gs as. Constraints (ccs s') = Constraints (ccs s) @ gs \<and>
         Assertions (ccs s') = Assertions (ccs s) @ as \<and>
         list_all (\<lambda>g. SparseR1C.Solver g = SingleOutput) (gs @ as)"
    unfolding grows_def .
qed
subsection \<open>Binary-decomposition lowering always completes\<close>

lemma extends_refl: "extends s s"
  by (simp add: extends_def)

lemma extends_trans: "extends s s1 \<Longrightarrow> extends s1 s2 \<Longrightarrow> extends s s2"
  by (simp add: extends_def)

lemma coeffsIn_extends: "extends s s' \<Longrightarrow> coeffsIn s ts \<Longrightarrow> coeffsIn s' ts"
  by (auto simp: extends_def coeffsIn_def list_all_iff)

lemma internalsMapped_extends: "extends s s' \<Longrightarrow> internalsMapped s ts \<Longrightarrow> internalsMapped s' ts"
  by (auto simp: extends_def internalsMapped_def list_all_iff)

lemma bitsIndexed_extends: "extends s s' \<Longrightarrow> bitsIndexed s ts \<Longrightarrow> bitsIndexed s' ts"
  by (auto simp: extends_def bitsIndexed_def list_all_iff)

lemma okTerm_extends: "extends s s' \<Longrightarrow> okTerm s t \<Longrightarrow> okTerm s' t"
  by (auto simp: extends_def okTerm_def)

lemma coeffsIn_subset: "set ts' \<subseteq> set ts \<Longrightarrow> coeffsIn s ts \<Longrightarrow> coeffsIn s ts'"
  by (auto simp: coeffsIn_def list_all_iff)

lemma internalsMapped_subset: "set ts' \<subseteq> set ts \<Longrightarrow> internalsMapped s ts \<Longrightarrow> internalsMapped s ts'"
  by (auto simp: internalsMapped_def list_all_iff)

lemma bitsIndexed_subset: "set ts' \<subseteq> set ts \<Longrightarrow> bitsIndexed s ts \<Longrightarrow> bitsIndexed s ts'"
  by (auto simp: bitsIndexed_def list_all_iff)

lemma coeffID_ok: "\<exists>i s'. coeffID b s = Inr (i, s') \<and> i < length (coeffs s') \<and> extends s s'"
proof (cases "indexOf b (coeffs s)")
  case None
  then show ?thesis by (simp add: coeffID_def extends_def)
next
  case (Some i)
  with indexOf_Some [OF Some] show ?thesis by (simp add: coeffID_def extends_def)
qed

lemma newTerm_ok:
  "\<exists>t s'. newTerm c None s = Inr (t, s') \<and> CoeffID t < length (coeffs s') \<and>
     t \<noteq> zeroTerm \<and> extends s s'"
proof -
  obtain i s1 where 1: "coeffID c s = Inr (i, s1)" "i < length (coeffs s1)" "extends s s1"
    using coeffID_ok by blast
  define s2 where "s2 = s1\<lparr>ccs := (ccs s1)\<lparr>NbInternalVariables := NbInternalVariables (ccs s1) + 1\<rparr>\<rparr>"
  have "newTerm c None s = Inr (Pack (NbInternalVariables (ccs s1)) i Internal, s2)"
    using 1 by (simp add: newTerm_def bindM_def allocInternal_def setCStoCCS_def returnM_def s2_def)
  moreover have "extends s s2" using 1 by (simp add: extends_def s2_def)
  moreover have "i < length (coeffs s2)" using 1 by (simp add: s2_def)
  ultimately show ?thesis by (auto simp: zeroTerm_def)
qed

lemma negate_ok:
  assumes "okTerm s t"
  shows "\<exists>t' s'. negate t s = Inr (t', s') \<and> okTerm s' t' \<and> extends s s'"
proof (cases "t = zeroTerm")
  case True
  then show ?thesis by (auto simp: negate_def returnM_def okTerm_def extends_refl)
next
  case False
  with assms have c: "CoeffID t < length (coeffs s)" by (simp add: okTerm_def)
  obtain i s1 where 1: "coeffID (- (coeffs s ! CoeffID t)) s = Inr (i, s1)"
      "i < length (coeffs s1)" "extends s s1"
    using coeffID_ok by blast
  have "negate t s = Inr (SetCoeffID i t, s1)"
    using False c 1 by (simp add: negate_def bindM_def coeffAt_def returnM_def)
  moreover have "okTerm s1 (SetCoeffID i t)" using 1 by (simp add: okTerm_def SetCoeffID_def)
  ultimately show ?thesis using 1 by blast
qed

lemma multiply2_ok:
  assumes "CoeffID t < length (coeffs s)"
  shows "\<exists>t' s'. multiply t 2 s = Inr (t', s') \<and> extends s s'"
proof -
  obtain i s1 where 1: "coeffID (coeffs s ! CoeffID t * 2) s = Inr (i, s1)" "extends s s1"
    using coeffID_ok by blast
  have "multiply t 2 s = Inr (SetCoeffID i t, s1)"
    using assms 1 by (simp add: multiply_def multiply_general_def bindM_def coeffAt_def returnM_def)
  then show ?thesis using 1 by blast
qed

lemma addConstraint_ok: "\<exists>s'. addConstraint g s = Inr ((), s') \<and> extends s s'"
  by (simp add: addConstraint_def extends_def)

lemma getCorrespondingTerm_ok:
  assumes "if VariableVisibility t = Internal then VariableID t < length (mCStoCCS s) else True"
  shows "\<exists>t'. getCorrespondingTerm t s = Inr (t', s) \<and> CoeffID t' = CoeffID t"
  using assms by (auto simp: getCorrespondingTerm_def SetVariableID_def split: if_splits)

lemma split_ok:
  "okTerm s acc \<Longrightarrow> coeffsIn s le \<Longrightarrow> internalsMapped s le \<Longrightarrow>
     \<exists>t s'. split acc le s = Inr (t, s') \<and> okTerm s' t \<and> extends s s'"
proof (induction le arbitrary: acc s)
  case Nil
  then show ?case by (auto simp: returnM_def extends_refl)
next
  case (Cons x le)
  have cx: "CoeffID x < length (coeffs s)" and cle: "coeffsIn s le"
    using Cons.prems(2) by (simp_all add: coeffsIn_def)
  have ix: "if VariableVisibility x = Internal then VariableID x < length (mCStoCCS s) else True"
    and ile: "internalsMapped s le"
    using Cons.prems(3) by (simp_all add: internalsMapped_def)
  obtain r where r: "getCorrespondingTerm x s = Inr (r, s)" "CoeffID r = CoeffID x"
    using getCorrespondingTerm_ok [OF ix] by blast
  have okr: "okTerm s r" using r cx by (simp add: okTerm_def)
  show ?case
  proof (cases "acc = zeroTerm")
    case True
    from Cons.IH [OF okr cle ile] obtain t s' where
      "split r le s = Inr (t, s')" "okTerm s' t" "extends s s'" by blast
    then show ?thesis using True r by (auto simp: bindM_def)
  next
    case False
    obtain o1 s1 where n: "newTerm 1 None s = Inr (o1, s1)" "CoeffID o1 < length (coeffs s1)"
        "extends s s1"
      using newTerm_ok by blast
    obtain s2 where a: "addConstraint (emptyGate\<lparr>SparseR1C.L := acc, SparseR1C.R := r,
        SparseR1C.O := o1\<rparr>) s1 = Inr ((), s2)" "extends s1 s2"
      using addConstraint_ok by blast
    have "okTerm s2 o1" using n a by (simp add: okTerm_def extends_def)
    then obtain o2 s3 where g: "negate o1 s2 = Inr (o2, s3)" "okTerm s3 o2" "extends s2 s3"
      using negate_ok by blast
    have e3: "extends s s3" using n a g by (blast intro: extends_trans)
    from Cons.IH [OF g(2) coeffsIn_extends [OF e3 cle] internalsMapped_extends [OF e3 ile]]
    obtain t s' where f: "split o2 le s3 = Inr (t, s')" "okTerm s' t" "extends s3 s'" by blast
    have "split acc (x # le) s = Inr (t, s')"
      using False r n a g f by (simp add: bindM_def)
    moreover have "extends s s'" using e3 f by (blast intro: extends_trans)
    ultimately show ?thesis using f by blast
  qed
qed

lemma popConstantTerm_list_ok:
  "list_all (\<lambda>t. CoeffID t < length cs) l \<Longrightarrow>
     \<exists>l' c. popConstantTerm_list cs l = Inr (l', c) \<and> set l' \<subseteq> set l"
proof (induction l)
  case Nil
  then show ?case by simp
next
  case (Cons t l)
  then obtain l' c where "popConstantTerm_list cs l = Inr (l', c)" "set l' \<subseteq> set l"
    by auto
  with Cons.prems show ?case by auto
qed

lemma popConstantTerm_ok:
  "coeffsIn s l \<Longrightarrow> \<exists>l' c. popConstantTerm l s = Inr ((l', c), s) \<and> set l' \<subseteq> set l"
  using popConstantTerm_list_ok [of "coeffs s" l]
  by (auto simp: popConstantTerm_def coeffsIn_def)

lemma findBit_ok:
  "list_all (\<lambda>t. CoeffID t < length cs) bd \<Longrightarrow>
     findBit cs acc bd = Inr None \<or>
     (\<exists>t rest. findBit cs acc bd = Inr (Some (t, rest)) \<and> t \<in> set bd \<and> set rest \<subseteq> set bd)"
proof (induction bd)
  case Nil
  then show ?case by simp
next
  case (Cons t bd)
  then have "findBit cs acc bd = Inr None \<or>
     (\<exists>u rest. findBit cs acc bd = Inr (Some (u, rest)) \<and> u \<in> set bd \<and> set rest \<subseteq> set bd)"
    by simp
  with Cons.prems show ?case by auto
qed

lemma consumeBit_ok:
  assumes "coeffsIn s bd" and "bitsIndexed s bd"
  shows "\<exists>bd' s'. consumeBit acc ri bd s = Inr (bd', s') \<and> set bd' \<subseteq> set bd \<and> extends s s'"
proof -
  from assms(1) have "list_all (\<lambda>t. CoeffID t < length (coeffs s)) bd"
    by (simp add: coeffsIn_def)
  from findBit_ok [OF this, of acc]
  show ?thesis
  proof
    assume "findBit (coeffs s) acc bd = Inr None"
    then show ?thesis by (simp add: consumeBit_def extends_refl)
  next
    assume "\<exists>t rest. findBit (coeffs s) acc bd = Inr (Some (t, rest)) \<and> t \<in> set bd \<and>
      set rest \<subseteq> set bd"
    then obtain t rest where f: "findBit (coeffs s) acc bd = Inr (Some (t, rest))"
      "t \<in> set bd" "set rest \<subseteq> set bd" by blast
    from assms(2) f(2) have "VariableID t < length (mCStoCCS s) \<and>
        VariableID t < length (solvedVariables s)"
      by (simp add: bitsIndexed_def list_all_iff)
    with f show ?thesis by (simp add: consumeBit_def extends_def)
  qed
qed

lemma binaryLoop_ok:
  "okTerm s q \<Longrightarrow> coeffsIn s bd \<Longrightarrow> bitsIndexed s bd \<Longrightarrow>
     \<exists>rest s'. binaryLoop n acc q bd s = Inr (rest, s')"
proof (induction n arbitrary: acc q bd s)
  case 0
  then show ?case by (simp add: returnM_def)
next
  case (Suc n)
  obtain ri s1 where 1: "newTerm 1 None s = Inr (ri, s1)" "extends s s1"
    using newTerm_ok by blast
  obtain qi s2 where 2: "newTerm 1 None s1 = Inr (qi, s2)" "CoeffID qi < length (coeffs s2)"
      "extends s1 s2"
    using newTerm_ok by blast
  have e2: "extends s s2" using 1 2 by (blast intro: extends_trans)
  obtain bd' s3 where 3: "consumeBit acc ri bd s2 = Inr (bd', s3)" "set bd' \<subseteq> set bd"
      "extends s2 s3"
    using consumeBit_ok [OF coeffsIn_extends [OF e2 Suc.prems(2)]
        bitsIndexed_extends [OF e2 Suc.prems(3)]] by blast
  have "CoeffID qi < length (coeffs s3)" using 2 3 by (simp add: extends_def)
  then obtain tq s4 where 4: "multiply qi 2 s3 = Inr (tq, s4)" "extends s3 s4"
    using multiply2_ok by blast
  have e4: "extends s s4" using e2 3 4 by (blast intro: extends_trans)
  obtain nq s5 where 5: "negate q s4 = Inr (nq, s5)" "extends s4 s5"
    using negate_ok [OF okTerm_extends [OF e4 Suc.prems(1)]] by blast
  obtain s6 where 6: "addConstraint (emptyGate\<lparr>SparseR1C.L := tq, SparseR1C.R := ri,
      SparseR1C.O := nq, SparseR1C.Solver := BinaryDec\<rparr>) s5 = Inr ((), s6)" "extends s5 s6"
    using addConstraint_ok by blast
  have e6: "extends s s6" using e4 5 6 by (blast intro: extends_trans)
  have e26: "extends s2 s6" using 3 4 5 6 by (blast intro: extends_trans)
  have okq: "okTerm s6 qi"
    using 2 e26 by (simp add: okTerm_def extends_def)
  have c: "coeffsIn s6 bd'" "bitsIndexed s6 bd'"
    using coeffsIn_subset [OF 3(2) coeffsIn_extends [OF e6 Suc.prems(2)]]
      bitsIndexed_subset [OF 3(2) bitsIndexed_extends [OF e6 Suc.prems(3)]] by simp_all
  from Suc.IH [OF okq c] obtain rest s' where
    "binaryLoop n (acc * 2) qi bd' s6 = Inr (rest, s')" by blast
  then have "binaryLoop (Suc n) acc q bd s = Inr (rest, s')"
    using 1 2 3 4 5 6 by (simp add: bindM_def)
  then show ?case by blast
qed

lemma reduceO_ok:
  assumes "coeffsIn s ol" and "internalsMapped s ol"
  shows "\<exists>ot s'. reduceO ol s = Inr (ot, s') \<and> okTerm s' ot \<and> extends s s'"
proof -
  obtain ol' cO where p: "popConstantTerm ol s = Inr ((ol', cO), s)" "set ol' \<subseteq> set ol"
    using popConstantTerm_ok [OF assms(1)] by blast
  obtain cOID s1 where c: "coeffID cO s = Inr (cOID, s1)" "extends s s1"
    using coeffID_ok by blast
  show ?thesis
  proof (cases "ol' = []")
    case True
    obtain ot s2 where n: "newTerm 1 None s1 = Inr (ot, s2)" "CoeffID ot < length (coeffs s2)"
        "extends s1 s2"
      using newTerm_ok by blast
    have "okTerm s2 ot" using n by (simp add: okTerm_def)
    then obtain nt s3 where g: "negate ot s2 = Inr (nt, s3)" "extends s2 s3"
      using negate_ok by blast
    obtain s4 where a: "addConstraint (emptyGate\<lparr>SparseR1C.L := nt, K := cOID\<rparr>) s3 = Inr ((), s4)"
        "extends s3 s4"
      using addConstraint_ok by blast
    have "reduceO ol s = Inr (ot, s4)"
      using True p c n g a by (simp add: reduceO_def bindM_def returnM_def)
    moreover have "extends s2 s4" using g a by (blast intro: extends_trans)
    moreover from this have "okTerm s4 ot" using n by (simp add: okTerm_def extends_def)
    moreover have "extends s s4" using c n g a by (blast intro: extends_trans)
    ultimately show ?thesis by blast
  next
    case False
    have "okTerm s1 zeroTerm" by (simp add: okTerm_def)
    from split_ok [OF this
        coeffsIn_subset [OF p(2) coeffsIn_extends [OF c(2) assms(1)]]
        internalsMapped_subset [OF p(2) internalsMapped_extends [OF c(2) assms(2)]]]
    obtain ot s2 where sp: "split zeroTerm ol' s1 = Inr (ot, s2)" "okTerm s2 ot" "extends s1 s2"
      by blast
    show ?thesis
    proof (cases "cOID = 0")
      case True
      have "reduceO ol s = Inr (ot, s2)"
        using True False p c sp by (simp add: reduceO_def bindM_def returnM_def)
      moreover have "extends s s2" using c sp by (blast intro: extends_trans)
      ultimately show ?thesis using sp by blast
    next
      case nz: False
      obtain ot' s3 where n: "newTerm 1 None s2 = Inr (ot', s3)" "CoeffID ot' < length (coeffs s3)"
          "extends s2 s3"
        using newTerm_ok by blast
      have "okTerm s3 ot'" using n by (simp add: okTerm_def)
      then obtain nt s4 where g: "negate ot' s3 = Inr (nt, s4)" "extends s3 s4"
        using negate_ok by blast
      obtain s5 where a: "addConstraint (emptyGate\<lparr>SparseR1C.L := ot, SparseR1C.O := nt,
          K := cOID\<rparr>) s4 = Inr ((), s5)" "extends s4 s5"
        using addConstraint_ok by blast
      have "reduceO ol s = Inr (ot', s5)"
        using nz False p c sp n g a by (simp add: reduceO_def bindM_def returnM_def)
      moreover have e35: "extends s3 s5" using g a by (blast intro: extends_trans)
      moreover have "okTerm s5 ot'" using n e35 by (simp add: okTerm_def extends_def)
      moreover have "extends s s5" using c sp n e35 by (blast intro: extends_trans)
      ultimately show ?thesis by blast
    qed
  qed
qed

text \<open>
  C3 (as amended). The per-bit loop of \<open>r1cToPlonkConstraintBinary\<close> runs \<open>len(L)\<close>
  times and nothing looks at what is left of \<open>L\<close> afterwards: whenever the indices
  the function reads are in range (coefficient indices of \<open>L\<close> and \<open>O\<close> in the pool,
  variable identifiers of \<open>L\<close> within the map and the solved flags, Internal
  variables of \<open>O\<close> within the map), the pass completes normally with the state the
  loop leaves, whatever the coefficients of \<open>L\<close> are and whatever remains of \<open>L\<close>. No
  error is reported for a malformed decomposition.
\<close>

theorem binary_completes_silently:
  assumes "coeffsIn s (R1C.L r1c)" and "bitsIndexed s (R1C.L r1c)"
    and "coeffsIn s (R1C.O r1c)" and "internalsMapped s (R1C.O r1c)"
  shows "\<exists>ot s1 rest s'. reduceO (R1C.O r1c) s = Inr (ot, s1) \<and>
           binaryLoop (length (R1C.L r1c)) 1 ot (R1C.L r1c) s1 = Inr (rest, s') \<and>
           r1cToPlonkConstraintBinary r1c s = Inr ((), s')"
proof -
  obtain ot s1 where 1: "reduceO (R1C.O r1c) s = Inr (ot, s1)" "okTerm s1 ot" "extends s s1"
    using reduceO_ok [OF assms(3) assms(4)] by blast
  obtain rest s' where 2: "binaryLoop (length (R1C.L r1c)) 1 ot (R1C.L r1c) s1 = Inr (rest, s')"
    using binaryLoop_ok [OF 1(2) coeffsIn_extends [OF 1(3) assms(1)]
        bitsIndexed_extends [OF 1(3) assms(2)]] by blast
  have "r1cToPlonkConstraintBinary r1c s = Inr ((), s')"
    using 1 2 by (simp add: r1cToPlonkConstraintBinary_def bindM_def returnM_def)
  with 1 2 show ?thesis by blast
qed
subsection \<open>Claims on malformed input\<close>

text \<open>
  C3, counterexample. \<open>L = [2 * b]\<close> has no term of coefficient 1: the one iteration
  of the loop consumes nothing, \<open>b\<close> stays unsolved and in \<open>L\<close>, and the pass returns
  normally.
\<close>

theorem binary_leftover_counterexample:
  "(case reduceO (R1C.O r1c_odd) s_f5 of
      Inl e \<Rightarrow> False
    | Inr (ot, s1) \<Rightarrow>
        (case binaryLoop (length (R1C.L r1c_odd)) 1 ot (R1C.L r1c_odd) s1 of
           Inl e \<Rightarrow> False
         | Inr (rest, s') \<Rightarrow>
             rest = [Pack 0 3 Internal] \<and> solvedVariables s' = [False] \<and>
             r1cToPlonkConstraintBinary r1c_odd s_f5 = Inr ((), s')))"
  by code_simp

theorem binary_completes_silently_witness:
  "coeffsIn s_f5 (R1C.L r1c_odd) \<and> bitsIndexed s_f5 (R1C.L r1c_odd) \<and>
   coeffsIn s_f5 (R1C.O r1c_odd) \<and> internalsMapped s_f5 (R1C.O r1c_odd) \<and>
   (\<exists>ot s1 rest s'. reduceO (R1C.O r1c_odd) s_f5 = Inr (ot, s1) \<and>
      binaryLoop (length (R1C.L r1c_odd)) 1 ot (R1C.L r1c_odd) s1 = Inr (rest, s') \<and>
      r1cToPlonkConstraintBinary r1c_odd s_f5 = Inr ((), s'))"
proof -
  have h: "coeffsIn s_f5 (R1C.L r1c_odd)" "bitsIndexed s_f5 (R1C.L r1c_odd)"
    "coeffsIn s_f5 (R1C.O r1c_odd)" "internalsMapped s_f5 (R1C.O r1c_odd)"
    by (simp_all add: coeffsIn_def bitsIndexed_def internalsMapped_def s_f5_def r1c_odd_def)
  from binary_completes_silently [OF h] h show ?thesis by blast
qed

text \<open>
  C5, counterexample. With \<open>O\<close> the constant 1, the gate that pins the O side down is
  emitted by \<open>r1cToPlonkConstraintBinary\<close> with the tag \<open>SingleOutput\<close>.
\<close>

theorem binary_tags_counterexample:
  "(case r1cToPlonkConstraintBinary r1c_bit s_f5 of
      Inl e \<Rightarrow> []
    | Inr (u, s') \<Rightarrow> map SparseR1C.Solver (Constraints (ccs s'))) = [SingleOutput, BinaryDec]"
  by code_simp

lemma not_isl_Inr: "\<not> isl r \<Longrightarrow> \<exists>x. r = Inr x"
  by (cases r) simp_all

theorem solver_tags_witness:
  "(\<exists>s'. r1cToPlonkConstraintBinary r1c_bit s_f5 = Inr ((), s') \<and>
      (\<exists>pre bits as. Constraints (ccs s') = Constraints (ccs s_f5) @ pre @ bits \<and>
         Assertions (ccs s') = Assertions (ccs s_f5) @ as \<and>
         list_all (\<lambda>g. SparseR1C.Solver g = SingleOutput) (pre @ as) \<and>
         list_all (\<lambda>g. SparseR1C.Solver g = BinaryDec) bits \<and>
         length bits = length (R1C.L r1c_bit))) \<and>
   (\<exists>s'. r1cToPlonkConstraintSingleOutput r1c_mul s_f5 = Inr ((), s') \<and>
      (\<exists>gs as. Constraints (ccs s') = Constraints (ccs s_f5) @ gs \<and>
         Assertions (ccs s') = Assertions (ccs s_f5) @ as \<and>
         list_all (\<lambda>g. SparseR1C.Solver g = SingleOutput) (gs @ as))) \<and>
   (\<exists>s'. splitR1C r1c_lin s_f5 = Inr ((), s') \<and>
      (\<exists>gs as. Constraints (ccs s') = Constraints (ccs s_f5) @ gs \<and>
         Assertions (ccs s') = Assertions (ccs s_f5) @ as \<and>
         list_all (\<lambda>g. SparseR1C.Solver g = SingleOutput) (gs @ as)))"
proof -
  have "\<not> isl (r1cToPlonkConstraintBinary r1c_bit s_f5)" by code_simp
  then obtain s1 where 1: "r1cToPlonkConstraintBinary r1c_bit s_f5 = Inr ((), s1)"
    using not_isl_Inr by fastforce
  have "\<not> isl (r1cToPlonkConstraintSingleOutput r1c_mul s_f5)" by code_simp
  then obtain s2 where 2: "r1cToPlonkConstraintSingleOutput r1c_mul s_f5 = Inr ((), s2)"
    using not_isl_Inr by fastforce
  have "\<not> isl (splitR1C r1c_lin s_f5)" by code_simp
  then obtain s3 where 3: "splitR1C r1c_lin s_f5 = Inr ((), s3)"
    using not_isl_Inr by fastforce
  from solver_tags [of r1c_bit s_f5 "()" s1] 1
  have a: "\<exists>pre bits as. Constraints (ccs s1) = Constraints (ccs s_f5) @ pre @ bits \<and>
         Assertions (ccs s1) = Assertions (ccs s_f5) @ as \<and>
         list_all (\<lambda>g. SparseR1C.Solver g = SingleOutput) (pre @ as) \<and>
         list_all (\<lambda>g. SparseR1C.Solver g = BinaryDec) bits \<and>
         length bits = length (R1C.L r1c_bit)"
    by blast
  from solver_tags [of r1c_mul s_f5 "()" s2] 2
  have b: "\<exists>gs as. Constraints (ccs s2) = Constraints (ccs s_f5) @ gs \<and>
         Assertions (ccs s2) = Assertions (ccs s_f5) @ as \<and>
         list_all (\<lambda>g. SparseR1C.Solver g = SingleOutput) (gs @ as)"
    by blast
  from solver_tags [of r1c_lin s_f5 "()" s3] 3
  have c: "\<exists>gs as. Constraints (ccs s3) = Constraints (ccs s_f5) @ gs \<and>
         Assertions (ccs s3) = Assertions (ccs s_f5) @ as \<and>
         list_all (\<lambda>g. SparseR1C.Solver g = SingleOutput) (gs @ as)"
    by blast
  from 1 2 3 a b c show ?thesis by blast
qed

lemma popInternalVariable_loop_no_hit:
  "c \<le> length l' \<Longrightarrow> length l' < c + length vs \<Longrightarrow>
     popInternalVariable_loop vs (- 1) l' c t = Inl PanicIndexOutOfRange"
  by (induction vs arbitrary: l' c t) auto

lemma popInternalVariable_no_hit:
  "popInternalVariable l (- 1) = Inl PanicMakeSliceLen \<or>
   popInternalVariable l (- 1) = Inl PanicIndexOutOfRange"
proof (cases "l = []")
  case True
  then show ?thesis by (simp add: popInternalVariable_def)
next
  case False
  then have "0 < length l" by simp
  then have "popInternalVariable_loop l (- 1) (replicate (length l - 1) zeroTerm) 0 zeroTerm
      = Inl PanicIndexOutOfRange"
    by (intro popInternalVariable_loop_no_hit) simp_all
  with False show ?thesis by (simp add: popInternalVariable_def)
qed

lemma popConstantTerm_list_cases:
  "popConstantTerm_list cs l = Inl PanicIndexOutOfRange \<or> (\<exists>x. popConstantTerm_list cs l = Inr x)"
  by (induction l) (auto split: sum.splits)

lemma popConstantTerm_cases:
  "popConstantTerm l s = Inl PanicIndexOutOfRange \<or> (\<exists>x. popConstantTerm l s = Inr (x, s))"
  using popConstantTerm_list_cases [of "coeffs s" l]
  by (auto simp: popConstantTerm_def)

lemma bind_getSolvedVariables: "bindM getSolvedVariables f s = f (solvedVariables s) s"
  by (simp add: bindM_def getSolvedVariables_def)

lemma bind_liftE_Inr: "bindM (liftE (Inr x)) f s = f x s"
  by (simp add: bindM_def liftE_def)

text \<open>
  C4 (as amended). The lowering functions return nothing to their caller, so there is
  no UnsolvableConstraint error. When \<open>findUnsolvedVariable\<close> returns (-1, -1) on a
  constraint tagged SingleOutput, the code goes on to pop the variable -1 from \<open>O\<close>
  and the pass stops with a run-time panic: a slice of negative length when \<open>O\<close>
  (without its constant) is empty, an index out of range otherwise.
\<close>

theorem singleOutput_without_target_panics:
  assumes "findUnsolvedVariable r1c (solvedVariables s) = Inr (- 1, - 1)"
  shows "r1cToPlonkConstraintSingleOutput r1c s = Inl PanicIndexOutOfRange \<or>
         r1cToPlonkConstraintSingleOutput r1c s = Inl PanicMakeSliceLen"
proof -
  let ?rest = "\<lambda>l1 cL r cR. bindM (popConstantTerm (R1C.O r1c)) (\<lambda>(o1, cO).
         bindM (liftE (popUnsolved (- 1) (- 1) l1 o1)) (\<lambda>(l, ol, toSolve).
         bindM (coeffAt (CoeffID toSolve)) (\<lambda>cS.
         bindM (dispatch16 (- 1) cL cR cO cS (- 1) l r ol) (\<lambda>_.
         markSolved (- 1)))))"
  have u: "r1cToPlonkConstraintSingleOutput r1c s =
      bindM (popConstantTerm (R1C.L r1c)) (\<lambda>(l1, cL).
      bindM (popConstantTerm (R1C.R r1c)) (\<lambda>(r, cR). ?rest l1 cL r cR)) s"
    using assms
    by (simp add: r1cToPlonkConstraintSingleOutput_def bind_getSolvedVariables bind_liftE_Inr Let_def)
  have pu: "liftE (popUnsolved (- 1) (- 1) l1 o1) s' = Inl PanicMakeSliceLen \<or>
      liftE (popUnsolved (- 1) (- 1) l1 o1) s' = Inl PanicIndexOutOfRange" for l1 o1 s'
    using popInternalVariable_no_hit [of o1] by (auto simp: popUnsolved_def liftE_def)
  show ?thesis
  proof (cases "popConstantTerm (R1C.L r1c) s")
    case (Inl e)
    with popConstantTerm_cases [of "R1C.L r1c" s] u show ?thesis by (auto simp: bindM_def)
  next
    case (Inr a)
    with popConstantTerm_cases [of "R1C.L r1c" s] obtain l1 cL
      where 1: "popConstantTerm (R1C.L r1c) s = Inr ((l1, cL), s)" by auto
    show ?thesis
    proof (cases "popConstantTerm (R1C.R r1c) s")
      case (Inl e)
      with popConstantTerm_cases [of "R1C.R r1c" s] u 1 show ?thesis by (auto simp: bindM_def)
    next
      case (Inr b)
      with popConstantTerm_cases [of "R1C.R r1c" s] obtain r cR
        where 2: "popConstantTerm (R1C.R r1c) s = Inr ((r, cR), s)" by auto
      show ?thesis
      proof (cases "popConstantTerm (R1C.O r1c) s")
        case (Inl e)
        with popConstantTerm_cases [of "R1C.O r1c" s] u 1 2 show ?thesis
          by (auto simp: bindM_def)
      next
        case (Inr c)
        with popConstantTerm_cases [of "R1C.O r1c" s] obtain o1 cO
          where 3: "popConstantTerm (R1C.O r1c) s = Inr ((o1, cO), s)" by auto
        from pu [of l1 o1 s] u 1 2 3 show ?thesis by (auto simp: bindM_def)
      qed
    qed
  qed
qed

text \<open>
  C4, counterexample. On \<open>1 * 1 = 0\<close> the pass panics. On \<open>1 * 1 = t\<close> with \<open>t\<close>
  already solved, \<open>findUnsolvedVariable\<close> returns position -1 with the stale
  identifier 0, and the pass completes without any error.
\<close>

theorem singleOutput_without_target_counterexample:
  "findUnsolvedVariable r1c_const (solvedVariables s_f5) = Inr (- 1, - 1) \<and>
   r1cToPlonkConstraintSingleOutput r1c_const s_f5 = Inl PanicMakeSliceLen \<and>
   findUnsolvedVariable r1c_resolved (solvedVariables (s_f5\<lparr>solvedVariables := [True]\<rparr>))
     = Inr (- 1, 0) \<and>
   \<not> isl (r1cToPlonkConstraintSingleOutput r1c_resolved (s_f5\<lparr>solvedVariables := [True]\<rparr>))"
  by code_simp

theorem singleOutput_without_target_panics_witness:
  "findUnsolvedVariable r1c_const (solvedVariables s_f5) = Inr (- 1, - 1) \<and>
   (r1cToPlonkConstraintSingleOutput r1c_const s_f5 = Inl PanicIndexOutOfRange \<or>
    r1cToPlonkConstraintSingleOutput r1c_const s_f5 = Inl PanicMakeSliceLen)"
proof -
  have h: "findUnsolvedVariable r1c_const (solvedVariables s_f5) = Inr (- 1, - 1)"
    by code_simp
  from singleOutput_without_target_panics [OF h] h show ?thesis by blast
qed

subsection \<open>Where assertion gates are recorded\<close>

text \<open>
  C6. Every assertion is to leave its gate in Assertions. The assertion \<open>x * y = z\<close>
  (L, R and O all non-empty, the last of the eight cases of \<open>splitR1C\<close>) leaves its
  gate in Constraints: that branch calls \<open>addConstraint\<close> where the seven others call
  \<open>recordAssertion\<close>.
\<close>

theorem splitR1C_last_case_records_constraint:
  "(case toSparseR1CS cs_a8 of
      Inl e \<Rightarrow> False
    | Inr (out, pool) \<Rightarrow> Assertions out = [] \<and> length (Constraints out) = 1)"
  by code_simp

subsection \<open>Variable identifiers of absent slots\<close>

text \<open>
  C8, counterexample. The assertion \<open>x1 * 1 = 0\<close> is recorded by \<open>recordAssertion\<close>
  as it stands: its \<open>M[0]\<close> is the sentinel with variable identifier 0, while \<open>L\<close> is
  on variable 1.
\<close>

theorem recordAssertion_counterexample:
  "(case splitR1C r1c_lin s_f5 of
      Inl e \<Rightarrow> False
    | Inr (u, s') \<Rightarrow>
        (case Assertions (ccs s') of
           [g] \<Rightarrow> M0 g = zeroTerm \<and> SparseR1C.L g = Pack 1 1 Secret \<and>
                  VariableID (M0 g) \<noteq> VariableID (SparseR1C.L g)
         | _ \<Rightarrow> False))"
  by code_simp

text \<open>
  C8 (as amended). Every gate appended through \<open>addConstraint\<close> has its variable
  identifiers set: if \<open>L\<close> is the sentinel it takes the identifier of \<open>M[0]\<close>, if \<open>R\<close>
  is the sentinel that of \<open>M[1]\<close>, a sentinel \<open>M[0]\<close> takes that of \<open>L\<close> and a
  sentinel \<open>M[1]\<close> that of \<open>R\<close>; slots that are present, \<open>O\<close>, \<open>K\<close> and the tag are
  left as they are. \<open>recordAssertion\<close> appends the gate as it was built.
\<close>

theorem addConstraint_sets_variable_ids:
  "addConstraint c s =
     Inr ((), s\<lparr>ccs := (ccs s)\<lparr>Constraints := Constraints (ccs s) @ [fixVariableIDs c]\<rparr>\<rparr>) \<and>
   recordAssertion c s =
     Inr ((), s\<lparr>ccs := (ccs s)\<lparr>Assertions := Assertions (ccs s) @ [c]\<rparr>\<rparr>) \<and>
   (SparseR1C.L c = zeroTerm \<longrightarrow>
      VariableID (SparseR1C.L (fixVariableIDs c)) = VariableID (M0 c)) \<and>
   (SparseR1C.R c = zeroTerm \<longrightarrow>
      VariableID (SparseR1C.R (fixVariableIDs c)) = VariableID (M1 c)) \<and>
   (M0 c = zeroTerm \<longrightarrow>
      VariableID (M0 (fixVariableIDs c)) = VariableID (SparseR1C.L c)) \<and>
   (M1 c = zeroTerm \<longrightarrow>
      VariableID (M1 (fixVariableIDs c)) = VariableID (SparseR1C.R c)) \<and>
   (SparseR1C.L c \<noteq> zeroTerm \<longrightarrow> SparseR1C.L (fixVariableIDs c) = SparseR1C.L c) \<and>
   (SparseR1C.R c \<noteq> zeroTerm \<longrightarrow> SparseR1C.R (fixVariableIDs c) = SparseR1C.R c) \<and>
   (M0 c \<noteq> zeroTerm \<longrightarrow> M0 (fixVariableIDs c) = M0 c) \<and>
   (M1 c \<noteq> zeroTerm \<longrightarrow> M1 (fixVariableIDs c) = M1 c) \<and>
   SparseR1C.O (fixVariableIDs c) = SparseR1C.O c \<and> K (fixVariableIDs c) = K c \<and>
   SparseR1C.Solver (fixVariableIDs c) = SparseR1C.Solver c"
  by (simp add: addConstraint_def recordAssertion_def fixVariableIDs_def Let_def
      SetVariableID_def zeroTerm_def)

theorem addConstraint_sets_variable_ids_witness:
  "SparseR1C.L gate_f12 = zeroTerm \<and> SparseR1C.R gate_f12 \<noteq> zeroTerm \<and>
   M0 gate_f12 \<noteq> zeroTerm \<and> M1 gate_f12 \<noteq> zeroTerm \<and>
   VariableID (SparseR1C.L (fixVariableIDs gate_f12)) = 3 \<and>
   SparseR1C.R (fixVariableIDs gate_f12) = Pack 3 1 Internal \<and>
   M0 (fixVariableIDs gate_f12) = Pack 3 1 Internal \<and>
   M1 (fixVariableIDs gate_f12) = Pack 7 1 Secret \<and>
   SparseR1C.L gate_lin \<noteq> zeroTerm \<and> SparseR1C.R gate_lin = zeroTerm \<and>
   M0 gate_lin = zeroTerm \<and> M1 gate_lin = zeroTerm \<and>
   SparseR1C.L (fixVariableIDs gate_lin) = Pack 4 1 Secret \<and>
   VariableID (SparseR1C.R (fixVariableIDs gate_lin)) = 0 \<and>
   VariableID (M0 (fixVariableIDs gate_lin)) = 4 \<and>
   VariableID (M1 (fixVariableIDs gate_lin)) = 0"
  using addConstraint_sets_variable_ids [of gate_f12 s_f5]
    addConstraint_sets_variable_ids [of gate_lin s_f5]
  by (simp add: gate_f12_def gate_lin_def emptyGate_def zeroTerm_def)
subsection \<open>Final renumbering\<close>











subsection \<open>Witness serialisation\<close>

lemma length_be_bytes: "length (be_bytes n v) = n"
  by (induction n arbitrary: v) simp_all

lemma be_value_snoc: "be_value (bs @ [b]) = be_value bs * 256 + unat b"
  by (simp add: be_value_def)

lemma be_value_be_bytes: "be_value (be_bytes n v) = v mod 256 ^ n"
proof (induction n arbitrary: v)
  case 0
  show ?case by (simp add: be_value_def)
next
  case (Suc n)
  have u: "unat (of_nat (v mod 256) :: byte) = v mod 256"
    by (simp add: unat_of_nat)
  have "be_value (be_bytes (Suc n) v) = (v div 256 mod 256 ^ n) * 256 + v mod 256"
    by (simp add: be_value_snoc Suc.IH u)
  also have "\<dots> = v mod (256 * 256 ^ n)"
    by (simp add: mod_mult2_eq)
  finally show ?case by simp
qed

lemma decodeElements_encoded:
  "list_all (\<lambda>v. v < q) w \<Longrightarrow> q \<le> 256 ^ (limbs * 8) \<Longrightarrow>
     decodeElements limbs q (length w) (concat (map (be_bytes (limbs * 8)) w))
       = (w, length w * (limbs * 8), None)"
proof (induction w)
  case Nil
  show ?case by simp
next
  case (Cons v w)
  have v: "v < q" and w: "list_all (\<lambda>v. v < q) w" using Cons.prems(1) by simp_all
  have "v mod 256 ^ (limbs * 8) = v" using v Cons.prems(2) by simp
  then have d: "be_value (be_bytes (limbs * 8) v) mod q = v"
    using v by (simp add: be_value_be_bytes)
  show ?case
    using Cons.IH [OF w Cons.prems(2)] d
    by (simp add: length_be_bytes)
qed

lemma length_concat_be_bytes:
  "length (concat (map (be_bytes k) w)) = length w * k"
  by (induction w) (simp_all add: length_be_bytes)

text \<open>
  C9 (as amended). For a witness \<open>w\<close> of fewer than \<open>2^32\<close> elements, each in canonical
  form (below the modulus, which fits the \<open>Limbs * 8\<close> bytes of an element),
  \<open>WriteTo\<close> emits the four big-endian bytes of \<open>len(w)\<close> followed by the encodings of
  the elements, and returns the number of bytes; \<open>LimitReadFrom\<close> on that stream with
  \<open>expectedSize = len(w)\<close> gives back \<open>w\<close>, reads exactly those bytes and leaves what
  follows them. On any stream of at least four bytes whose prefix differs from
  \<open>expectedSize\<close>, \<open>LimitReadFrom\<close> returns the error "invalid witness size" with 4
  bytes read, the receiver untouched and the rest of the stream unread.
\<close>

theorem witness_roundtrip:
  assumes "length w < 2 ^ 32" and "list_all (\<lambda>v. v < q) w" and "q \<le> 256 ^ (limbs * 8)"
  shows "fst (WriteTo limbs w) = be_bytes 4 (length w) @ concat (map (be_bytes (limbs * 8)) w) \<and>
         be_value (be_bytes 4 (length w)) = length w \<and>
         snd (WriteTo limbs w) = 4 + int (length w * (limbs * 8)) \<and>
         LimitReadFrom limbs q old (fst (WriteTo limbs w) @ rest) (int (length w))
           = \<lparr>bytesRead = snd (WriteTo limbs w), readError = None, decoded = w, remaining = rest\<rparr> \<and>
         (4 \<le> length r \<and> int (be_value (take 4 r)) \<noteq> e \<longrightarrow>
            LimitReadFrom limbs q old r e
              = \<lparr>bytesRead = 4, readError = Some InvalidWitnessSize, decoded = old,
                 remaining = drop 4 r\<rparr>)"
proof (intro conjI impI)
  have u: "uint32 (length w) = length w" using assms(1) by (simp add: uint32_def)
  show f: "fst (WriteTo limbs w) = be_bytes 4 (length w) @ concat (map (be_bytes (limbs * 8)) w)"
    by (simp add: WriteTo_def u)
  have "length w mod 256 ^ 4 = length w" using assms(1) by simp
  then show p: "be_value (be_bytes 4 (length w)) = length w"
    by (simp only: be_value_be_bytes)
  show "snd (WriteTo limbs w) = 4 + int (length w * (limbs * 8))"
    by (simp add: WriteTo_def)
  let ?body = "concat (map (be_bytes (limbs * 8)) w)"
  let ?r = "fst (WriteTo limbs w) @ rest"
  have r: "?r = be_bytes 4 (length w) @ (?body @ rest)" by (simp add: f)
  have t4: "take 4 ?r = be_bytes 4 (length w)" and d4: "drop 4 ?r = ?body @ rest"
    and l4: "\<not> length ?r < 4"
    by (simp_all add: r length_be_bytes)
  have lr: "take (nat (int (length w) * int limbs * 8)) (?body @ rest) = ?body"
    by (simp add: length_concat_be_bytes nat_mult_distrib mult.assoc)
  have dn: "drop (length w * (limbs * 8)) (?body @ rest) = rest"
    by (simp add: length_concat_be_bytes)
  have w0: "length (if length old \<noteq> length w then replicate (length w) 0 else old) = length w"
    by simp
  have step: "LimitReadFrom limbs q old ?r (int (length w)) =
      (case decodeElements limbs q (length w) ?body of
         (es, n, e) \<Rightarrow>
           \<lparr>bytesRead = int n + 4, readError = e,
            decoded = es @ drop (length es)
              (if length old \<noteq> length w then replicate (length w) 0 else old),
            remaining = drop n (?body @ rest)\<rparr>)"
    unfolding LimitReadFrom_def Let_def t4 d4 p lr using l4 by simp
  show "LimitReadFrom limbs q old ?r (int (length w))
      = \<lparr>bytesRead = snd (WriteTo limbs w), readError = None, decoded = w, remaining = rest\<rparr>"
    unfolding step decodeElements_encoded [OF assms(2) assms(3)]
    using dn w0 by (simp add: WriteTo_def)
next
  assume "4 \<le> length r \<and> int (be_value (take 4 r)) \<noteq> e"
  then show "LimitReadFrom limbs q old r e
      = \<lparr>bytesRead = 4, readError = Some InvalidWitnessSize, decoded = old, remaining = drop 4 r\<rparr>"
    by (simp add: LimitReadFrom_def Let_def)
qed

theorem witness_roundtrip_witness:
  "length [5, 300 :: nat] < 2 ^ 32 \<and> list_all (\<lambda>v. v < 1000) [5, 300 :: nat] \<and>
   (1000 :: nat) \<le> 256 ^ (1 * 8) \<and>
   LimitReadFrom 1 1000 [] (fst (WriteTo 1 [5, 300]) @ [7]) 2
     = \<lparr>bytesRead = 20, readError = None, decoded = [5, 300], remaining = [7]\<rparr> \<and>
   4 \<le> length [0, 0, 0, 2 :: byte] \<and> int (be_value (take 4 [0, 0, 0, 2 :: byte])) \<noteq> 3 \<and>
   LimitReadFrom 1 1000 [9] [0, 0, 0, 2] 3
     = \<lparr>bytesRead = 4, readError = Some InvalidWitnessSize, decoded = [9],
        remaining = drop 4 [0, 0, 0, 2]\<rparr>"
proof -
  have h: "length [5, 300 :: nat] < 2 ^ 32" "list_all (\<lambda>v. v < 1000) [5, 300 :: nat]"
    "(1000 :: nat) \<le> 256 ^ (1 * 8)"
    by simp_all
  have g: "4 \<le> length [0, 0, 0, 2 :: byte] \<and> int (be_value (take 4 [0, 0, 0, 2 :: byte])) \<noteq> 3"
    by (simp add: be_value_def)
  have s: "snd (WriteTo 1 [5, 300]) = 20" "int (length [5, 300 :: nat]) = 2"
    by (simp_all add: WriteTo_def)
  note r = witness_roundtrip [OF h, of "[]" "[7]" "[0, 0, 0, 2]" 3]
  note r' = witness_roundtrip [OF h, of "[9]" "[7]" "[0, 0, 0, 2]" 3]
  from r have a: "LimitReadFrom 1 1000 [] (fst (WriteTo 1 [5, 300]) @ [7]) (int (length [5, 300 :: nat]))
      = \<lparr>bytesRead = snd (WriteTo 1 [5, 300]), readError = None, decoded = [5, 300],
         remaining = [7]\<rparr>"
    by blast
  from r' g have b: "LimitReadFrom 1 1000 [9] [0, 0, 0, 2] 3
      = \<lparr>bytesRead = 4, readError = Some InvalidWitnessSize, decoded = [9],
         remaining = drop 4 [0, 0, 0, 2]\<rparr>"
    by blast
  from a have a': "LimitReadFrom 1 1000 [] (fst (WriteTo 1 [5, 300]) @ [7]) 2
      = \<lparr>bytesRead = 20, readError = None, decoded = [5, 300], remaining = [7]\<rparr>"
    unfolding s .
  from h g a' b show ?thesis by blast
qed

lemma be_bytes_4_0: "be_bytes 4 0 = [0, 0, 0, 0]"
  by code_simp

text \<open>
  C9, counterexample. The prefix is \<open>uint32(len(w))\<close>: for a witness of \<open>2^32\<close>
  elements it is 0, not \<open>len(w)\<close>, and reading the stream back with
  \<open>expectedSize = len(w)\<close> fails with "invalid witness size".
\<close>

theorem witness_length_wraps_counterexample:
  "length w_huge = 2 ^ 32 \<and>
   take 4 (fst (WriteTo 1 w_huge)) = [0, 0, 0, 0] \<and>
   be_value (take 4 (fst (WriteTo 1 w_huge))) = 0 \<and>
   readError (LimitReadFrom 1 2 [] (fst (WriteTo 1 w_huge)) (int (length w_huge)))
     = Some InvalidWitnessSize"
proof -
  define body where "body = concat (map (be_bytes (1 * 8)) w_huge)"
  have l: "length w_huge = 2 ^ 32" by (simp only: w_huge_def length_replicate)
  have u: "uint32 (length w_huge) = 0" by (simp add: l uint32_def)
  have f: "fst (WriteTo 1 w_huge) = [0, 0, 0, 0] @ body"
    by (simp only: WriteTo_def fst_conv u be_bytes_4_0 body_def)
  have t: "take 4 (fst (WriteTo 1 w_huge)) = [0, 0, 0, 0]"
    unfolding f by simp
  have v: "be_value [0, 0, 0, 0 :: byte] = 0" by (simp add: be_value_def)
  have n: "\<not> length (fst (WriteTo 1 w_huge)) < 4" unfolding f by simp
  have e: "int (be_value (take 4 (fst (WriteTo 1 w_huge)))) \<noteq> int (length w_huge)"
    unfolding t v l by simp
  have "readError (LimitReadFrom 1 2 [] (fst (WriteTo 1 w_huge)) (int (length w_huge)))
     = Some InvalidWitnessSize"
    unfolding LimitReadFrom_def Let_def using n e by (simp only: if_False if_True not_False_eq_True readResult.simps)
  with l t v show ?thesis by simp
qed


end
